theory Spec2Isabelle
  imports Complex_Main "HOL-Library.Word"
begin

section \<open>JavaScript values\<close>

text \<open>
  The facade of \<^verbatim>\<open>src/tabris/Crypto.ts\<close> is dynamically checked: every argument
  is inspected at run time before the Provider is called. The model therefore carries
  untyped JavaScript values. Numbers keep \<open>NaN\<close> and the infinities apart from the
  finite values; the code only tests them (\<open>isNaN\<close>) and forwards them.
\<close>

type_synonym byte = "8 word"

datatype jsnum = NaN | PosInfinity | NegInfinity | Finite real

datatype view_kind =
    Int8Array | Uint8Array | Uint8ClampedArray | Int16Array | Uint16Array
  | Int32Array | Uint32Array | Float32Array | Float64Array | DataView

text \<open>
  An \<open>ArrayBuffer\<close> is a reference to a block of the byte store, with its fixed
  \<open>byteLength\<close>. An \<open>ArrayBufferView\<close> is a window on such a block.
\<close>

record array_buffer =
  addr :: nat
  ab_byteLength :: nat

record array_buffer_view =
  kind :: view_kind
  buffer :: array_buffer
  byteOffset :: nat
  byteLength :: nat

text \<open>
  \<open>JArray frozen elements\<close> is an array object, \<open>JObject\<close> a plain object with its
  own enumerable properties in insertion order, \<open>JCryptoKey cid\<close> an instance of
  \<open>CryptoKey\<close> addressing the Provider-side key \<open>cid\<close>.
\<close>

datatype jsval =
    JUndefined
  | JNull
  | JBool bool
  | JNum jsnum
  | JStr string
  | JArrayBuffer array_buffer
  | JView array_buffer_view
  | JArray bool "jsval list"
  | JObject "(string \<times> jsval) list"
  | JCryptoKey nat

type_synonym heap = "nat \<Rightarrow> byte list"

section \<open>Errors and results\<close>

text \<open>
  One constructor per \<open>throw\<close> and per rejection of the source, carrying what the
  message is built from. \<open>UnexpectedEntry\<close>, \<open>NotAllowedValue\<close> and \<open>WrongType\<close>
  are raised by the helpers \<open>allowOnlyKeys\<close>, \<open>allowOnlyValues\<close> and
  \<open>checkType\<close>; \<open>PropertyOfNullish\<close> and \<open>SourceTooLarge\<close> are the run-time's own
  \<open>TypeError\<close> (reading a property of \<open>undefined\<close> or \<open>null\<close>, or converting one of
  them to an object; calling a missing method) and \<open>RangeError\<close> (\<open>TypedArray.set\<close> with
  a source that does not fit).
\<close>

datatype error =
    NotEnoughArguments string
  | ExpectedArguments nat nat
  | NotAcceptedArrayType jsval
  | UnrecognizedName jsval
  | AesGcmNotSupported
  | NotEnoughRandomBytes
  | UnexpectedEntry string
  | NotAllowedValue string jsval
  | WrongType string jsval
  | ProviderFailure jsval
  | PropertyOfNullish string
  | SourceTooLarge

text \<open>
  A promise, as the caller comes to see it: resolved, rejected, or never settled.
\<close>

datatype 'a promise = Resolved 'a | Rejected error | Pending

subsection \<open>The error taxonomy of the specification\<close>

datatype error_class = ArgumentCountError | ValidationError | AlgorithmMismatchError | ProviderError

text \<open>
  Section 7 of the specification: an argument-count error is a wrong number of
  arguments; an algorithm mismatch is an unsupported algorithm or algorithm name
  (the specification's example: AES-GCM passed to a derive operation); a Provider error
  is a failure reported by the Provider; every other failure found while validating is a
  plain validation error.
\<close>

fun error_class_of :: "error \<Rightarrow> error_class" where
  "error_class_of (NotEnoughArguments f) = ArgumentCountError"
| "error_class_of (ExpectedArguments n m) = ArgumentCountError"
| "error_class_of AesGcmNotSupported = AlgorithmMismatchError"
| "error_class_of (UnrecognizedName v) = AlgorithmMismatchError"
| "error_class_of (NotAllowedValue field v) =
     (if field = ''algorithm'' \<or> field = ''algorithm.name'' \<or> field = ''derivedKeyAlgorithm.name''
      then AlgorithmMismatchError else ValidationError)"
| "error_class_of (ProviderFailure r) = ProviderError"
| "error_class_of NotEnoughRandomBytes = ProviderError"
| "error_class_of e = ValidationError"

section \<open>The native bridge and the Provider\<close>

text \<open>
  Every interaction with the Provider goes through the native bridge: creating a
  Provider-side object, calling a method of one, destroying one. The model records them
  in order. A call is addressed to the \<open>tabris.Crypto\<close> singleton or to a key container.
\<close>

datatype target = CryptoSingleton | Key nat

datatype param = Val jsval | Cid nat

datatype event =
    Create nat
  | NativeCall target string "(string \<times> param) list"
  | Destroy nat

record native_state =
  next_cid :: nat
  calls :: "event list"

text \<open>
  The Provider is outside the repository. It answers the synchronous
  \<open>getRandomValues\<close> call with the bytes of a buffer, and every asynchronous call
  with exactly one of its two callbacks (section 6 of the specification: one request
  yields exactly one success or one error callback). The theorems quantify over it.
\<close>

datatype response = Succeeds jsval | Fails jsval

record provider =
  random_bytes :: "nat \<Rightarrow> byte list"
  respond :: "target \<Rightarrow> string \<Rightarrow> (string \<times> param) list \<Rightarrow> response"

definition native_call :: "target \<Rightarrow> string \<Rightarrow> (string \<times> param) list \<Rightarrow> native_state \<Rightarrow> native_state" where
  "native_call t m ps s = s\<lparr>calls := calls s @ [NativeCall t m ps]\<rparr>"

text \<open>
  The bridge's error callback of every asynchronous call of the source is
  \<open>(reason) => onError(new Error(String(reason)))\<close>.
\<close>

definition settle :: "response \<Rightarrow> jsval promise" where
  "settle r = (case r of Succeeds v \<Rightarrow> Resolved v | Fails reason \<Rightarrow> Rejected (ProviderFailure reason))"

text \<open>
  The body of a function returns a value or throws (\<open>Inl\<close>); on the way it may change
  the state of the bridge. The body of an \<open>async\<close> function returns a promise, or a
  value, which stands for the promise resolved with it. Called, an \<open>async\<close> function
  never throws: a \<open>throw\<close> in its body, or a rejected promise it awaits, rejects the
  promise it returns.
\<close>

definition async :: "(error + 'a promise) \<times> native_state \<Rightarrow> 'a promise \<times> native_state" where
  "async r = (case r of (Inl e, s) \<Rightarrow> (Rejected e, s) | (Inr pr, s) \<Rightarrow> (pr, s))"

section \<open>Run-time primitives\<close>

definition arg :: "jsval list \<Rightarrow> nat \<Rightarrow> jsval" where
  "arg args i = (if i < length args then args ! i else JUndefined)"

text \<open>Property access: a \<open>TypeError\<close> on \<open>undefined\<close> and \<open>null\<close>, \<open>undefined\<close>
  for a property the value does not have. Of the built-in properties only \<open>length\<close> of
  strings and arrays is among the names the source reads.\<close>

fun js_get :: "jsval \<Rightarrow> string \<Rightarrow> error + jsval" where
  "js_get JUndefined k = Inl (PropertyOfNullish k)"
| "js_get JNull k = Inl (PropertyOfNullish k)"
| "js_get (JObject kvs) k = Inr (case map_of kvs k of Some v \<Rightarrow> v | None \<Rightarrow> JUndefined)"
| "js_get (JStr s) k = Inr (if k = ''length'' then JNum (Finite (real (length s))) else JUndefined)"
| "js_get (JArray f xs) k = Inr (if k = ''length'' then JNum (Finite (real (length xs))) else JUndefined)"
| "js_get v k = Inr JUndefined"

definition with_prop :: "jsval \<Rightarrow> string \<Rightarrow> (jsval \<Rightarrow> error + 'a) \<Rightarrow> error + 'a" where
  "with_prop v k f = (case js_get v k of Inl e \<Rightarrow> Inl e | Inr x \<Rightarrow> f x)"

text \<open>A sequence of checks, each of which returns or throws: the first throw wins.\<close>

fun first_error :: "(error + unit) list \<Rightarrow> error + unit" where
  "first_error [] = Inr ()"
| "first_error (Inl e # cs) = Inl e"
| "first_error (Inr u # cs) = first_error cs"

text \<open>\<open>Object.keys\<close>: the own enumerable property names; the indices for a string
  and an array; a \<open>TypeError\<close> on \<open>undefined\<close> and \<open>null\<close>.\<close>

function decimal :: "nat \<Rightarrow> string" where
  "decimal n = (if n < 10 then [''0123456789'' ! n] else decimal (n div 10) @ [''0123456789'' ! (n mod 10)])"
  by pat_completeness auto
termination
  by (relation "measure id") auto

definition bytes_per_element :: "view_kind \<Rightarrow> nat" where
  "bytes_per_element k =
     (case k of Int8Array \<Rightarrow> 1 | Uint8Array \<Rightarrow> 1 | Uint8ClampedArray \<Rightarrow> 1
      | Int16Array \<Rightarrow> 2 | Uint16Array \<Rightarrow> 2 | Int32Array \<Rightarrow> 4 | Uint32Array \<Rightarrow> 4
      | Float32Array \<Rightarrow> 4 | Float64Array \<Rightarrow> 8 | DataView \<Rightarrow> 1)"

fun js_keys :: "jsval \<Rightarrow> error + string list" where
  "js_keys JUndefined = Inl (PropertyOfNullish ''keys'')"
| "js_keys JNull = Inl (PropertyOfNullish ''keys'')"
| "js_keys (JObject kvs) = Inr (map fst kvs)"
| "js_keys (JStr s) = Inr (map decimal [0..<length s])"
| "js_keys (JArray f xs) = Inr (map decimal [0..<length xs])"
| "js_keys (JView v) =
     Inr (if kind v = DataView then [] else map decimal [0..<byteLength v div bytes_per_element (kind v)])"
| "js_keys v = Inr []"

text \<open>\<open>isNaN(x)\<close> on a value of type \<open>number | undefined\<close>, the type the source
  declares for the one value it applies \<open>isNaN\<close> to: \<open>undefined\<close> (\<open>None\<close>) converts to
  \<open>NaN\<close>, a number is tested as it is.\<close>

fun js_isNaN :: "jsnum option \<Rightarrow> bool" where
  "js_isNaN None = True"
| "js_isNaN (Some n) = (n = NaN)"

text \<open>A value of type \<open>number | undefined\<close> as a JavaScript value.\<close>

fun number_or_undefined :: "jsnum option \<Rightarrow> jsval" where
  "number_or_undefined None = JUndefined"
| "number_or_undefined (Some n) = JNum n"

text \<open>
  Whether a value an operation holds is shared with the caller matters for arrays, which
  can be changed and frozen in place. A held value is either the very object the caller
  passed, shared with the caller, or a new value the operation has made: a newly
  allocated object, which is no object of the caller's, or a primitive.
\<close>

datatype held = SameObject jsval | NewValue jsval

text \<open>What a held value shows after the caller has changed the object they passed by
  \<open>m\<close>: a shared object shows the change, a new value does not.\<close>

definition seen_after :: "(jsval \<Rightarrow> jsval) \<Rightarrow> held \<Rightarrow> jsval" where
  "seen_after m h = (case h of SameObject v \<Rightarrow> m v | NewValue v \<Rightarrow> v)"

text \<open>\<open>x.concat()\<close> allocates a new, unfrozen array with the elements of the array \<open>x\<close>;
  on a string it gives the string; no other value of the model has the method.
  \<open>Object.freeze(x)\<close> freezes the object it is given, in place, and returns it.\<close>

fun js_concat :: "jsval \<Rightarrow> error + held" where
  "js_concat (JArray f xs) = Inr (NewValue (JArray False xs))"
| "js_concat (JStr s) = Inr (NewValue (JStr s))"
| "js_concat v = Inl (PropertyOfNullish ''concat'')"

fun js_freeze :: "held \<Rightarrow> held" where
  "js_freeze (NewValue (JArray f xs)) = NewValue (JArray True xs)"
| "js_freeze (SameObject (JArray f xs)) = SameObject (JArray True xs)"
| "js_freeze h = h"

section \<open>The helpers imported by the source\<close>

text \<open>
  Modelled from the spec: \<open>allowOnlyKeys\<close> of \<open>./util\<close>, the specification's
  \<open>requireKeysSubset(record, allowedKeys)\<close>, which fails if the record has any key not
  in \<open>allowedKeys\<close>. A value that is not a record has no keys to check.
\<close>

fun allowOnlyKeys :: "jsval \<Rightarrow> string list \<Rightarrow> error + unit" where
  "allowOnlyKeys (JObject kvs) allowed =
     (case filter (\<lambda>k. k \<notin> set allowed) (map fst kvs) of
        [] \<Rightarrow> Inr ()
      | k # ks \<Rightarrow> Inl (UnexpectedEntry k))"
| "allowOnlyKeys v allowed = Inr ()"

text \<open>
  Modelled from the spec: \<open>allowOnlyValues\<close> of \<open>./util\<close>, the specification's
  \<open>requireEnumMember(value, allowedValues, fieldName)\<close>, which fails if the value is
  not exactly one of \<open>allowedValues\<close>.
\<close>

definition allowOnlyValues :: "jsval \<Rightarrow> string list \<Rightarrow> string \<Rightarrow> error + unit" where
  "allowOnlyValues v allowed valueName =
     (if v \<in> set (map JStr allowed) then Inr () else Inl (NotAllowedValue valueName v))"

text \<open>
  Modelled from the spec: \<open>checkType\<close> of \<open>./checkType\<close>, the specification's
  \<open>requireType(value, expectedKind, {nullable})\<close>, which fails if the value's run-time
  shape does not match the kind (a byte buffer, a boolean, a sequence, a finite number,
  ...); \<open>nullable\<close> permits \<open>undefined\<close>. The kind \<open>Object\<close> is every object value.
\<close>

datatype type_kind = TArrayBuffer | TObject | TBoolean | TArray | TCryptoKey | TNumber | TString

fun has_kind :: "jsval \<Rightarrow> type_kind \<Rightarrow> bool" where
  "has_kind (JArrayBuffer b) t = (t = TArrayBuffer \<or> t = TObject)"
| "has_kind (JView v) t = (t = TObject)"
| "has_kind (JArray f xs) t = (t = TArray \<or> t = TObject)"
| "has_kind (JObject kvs) t = (t = TObject)"
| "has_kind (JCryptoKey c) t = (t = TCryptoKey \<or> t = TObject)"
| "has_kind (JBool b) t = (t = TBoolean)"
| "has_kind (JNum n) t = (t = TNumber \<and> (case n of Finite x \<Rightarrow> True | _ \<Rightarrow> False))"
| "has_kind (JStr s) t = (t = TString)"
| "has_kind JUndefined t = False"
| "has_kind JNull t = False"

definition checkType :: "jsval \<Rightarrow> type_kind \<Rightarrow> string \<Rightarrow> bool \<Rightarrow> error + unit" where
  "checkType v t name nullable =
     (if nullable \<and> v = JUndefined then Inr ()
      else if has_kind v t then Inr ()
      else Inl (WrongType name v))"

text \<open>
  Modelled from the spec: \<open>getBuffer\<close> of \<open>./util\<close>, the specification's
  \<open>requireBufferLike(value)\<close>, which returns the underlying byte buffer if the value is
  a byte buffer or a view over one with non-float element type, and otherwise signals
  failure: the source tests the result for truthiness or for being an \<open>ArrayBuffer\<close>.
\<close>

fun getBuffer :: "jsval \<Rightarrow> jsval" where
  "getBuffer (JArrayBuffer b) = JArrayBuffer b"
| "getBuffer (JView v) =
     (if kind v = Float32Array \<or> kind v = Float64Array then JUndefined else JArrayBuffer (buffer v))"
| "getBuffer x = JUndefined"

text \<open>
  Modelled from the spec: \<open>getCid\<close> and \<open>getNativeObject(key).cid\<close> of \<open>./util\<close>,
  the opaque internal reference of a key handle to its Provider-side object.
\<close>

fun getCid :: "jsval \<Rightarrow> error + nat" where
  "getCid (JCryptoKey c) = Inr c"
| "getCid v = Inl (WrongType ''key'' v)"

section \<open>Crypto.getRandomValues\<close>

text \<open>\<open>new Uint8Array(buffer).set(values)\<close>: the source bytes are written from index 0
  of the buffer; a source longer than the buffer is a \<open>RangeError\<close>.\<close>

definition uint8_set :: "array_buffer \<Rightarrow> byte list \<Rightarrow> heap \<Rightarrow> error + heap" where
  "uint8_set b values h =
     (if length values > ab_byteLength b then Inl SourceTooLarge
      else Inr (h(addr b := values @ drop (length values) (h (addr b)))))"

text \<open>\<open>NativeCrypto.getRandomValues\<close>, lines 252 to 262.\<close>

definition native_getRandomValues ::
  "provider \<Rightarrow> array_buffer_view \<Rightarrow> heap \<Rightarrow> native_state \<Rightarrow> (error + jsval) \<times> heap \<times> native_state" where
  "native_getRandomValues p typedArray h s =
     (let n = byteLength typedArray;
          s1 = native_call CryptoSingleton ''getRandomValues'' [(''byteLength'', Val (JNum (Finite (real n))))] s;
          values = random_bytes p n
      in if length values \<noteq> n then (Inl NotEnoughRandomBytes, h, s1)
         else (case uint8_set (buffer typedArray) values h of
                 Inl e \<Rightarrow> (Inl e, h, s1)
               | Inr h1 \<Rightarrow> (Inr (JView typedArray), h1, s1)))"

text \<open>\<open>Crypto.getRandomValues\<close>, lines 22 to 34. The function is not \<open>async\<close>: it
  returns or throws.\<close>

definition getRandomValues ::
  "provider \<Rightarrow> jsval list \<Rightarrow> heap \<Rightarrow> native_state \<Rightarrow> (error + jsval) \<times> heap \<times> native_state" where
  "getRandomValues p args h s =
     (if length args = 0 then (Inl (NotEnoughArguments ''Crypto.getRandomValues''), h, s)
      else (case arg args 0 of
              JView v \<Rightarrow>
                (if kind v = Float32Array \<or> kind v = Float64Array
                 then (Inl (NotAcceptedArrayType (JView v)), h, s)
                 else native_getRandomValues p v h s)
            | x \<Rightarrow> (Inl (NotAcceptedArrayType x), h, s)))"

text \<open>The bytes a view shows.\<close>

definition view_bytes :: "heap \<Rightarrow> array_buffer_view \<Rightarrow> byte list" where
  "view_bytes h v = take (byteLength v) (drop (byteOffset v) (h (addr (buffer v))))"

section \<open>Key containers\<close>

text \<open>
  The class \<open>_CryptoKey\<close> of \<open>./CryptoKey\<close> is not among the sources. Its
  constructor and the methods the facade calls are modelled from the specification's
  KeyHandle Manager (section 4.2) and Provider contract (section 6).
\<close>

text \<open>
  Modelled from the spec: the liveness of a Provider-side key container, which
  \<open>create()\<close> requests and \<open>dispose(handle)\<close> releases. A container is live after
  the events \<open>es\<close> when its last creation or destruction in \<open>es\<close> is a creation.
\<close>

definition key_live :: "nat \<Rightarrow> event list \<Rightarrow> bool" where
  "key_live c es =
     foldl (\<lambda>b e. if e = Create c then True else if e = Destroy c then False else b) False es"

text \<open>
  Modelled from the spec: \<open>new _CryptoKey()\<close>, the specification's \<open>create()\<close>, which
  requests a new empty Provider-side key container and returns a handle with no material
  yet.
\<close>

definition new_CryptoKey :: "native_state \<Rightarrow> nat \<times> native_state" where
  "new_CryptoKey s =
     (next_cid s, s\<lparr>next_cid := Suc (next_cid s), calls := calls s @ [Create (next_cid s)]\<rparr>)"

text \<open>
  Modelled from the spec: \<open>_CryptoKey.dispose()\<close>, the specification's
  \<open>dispose(handle)\<close>, which releases the Provider-side resource and is idempotent.
\<close>

definition dispose :: "nat \<Rightarrow> native_state \<Rightarrow> native_state" where
  "dispose c s = (if key_live c (calls s) then s\<lparr>calls := calls s @ [Destroy c]\<rparr> else s)"

text \<open>\<open>await\<close> of a one-shot Provider request: the success callback resumes the
  function, the error callback makes the \<open>await\<close> throw.\<close>

definition await :: "response \<Rightarrow> error + unit" where
  "await r = (case r of Succeeds v \<Rightarrow> Inr () | Fails reason \<Rightarrow> Inl (ProviderFailure reason))"

text \<open>
  Modelled from the spec: \<open>_CryptoKey.import\<close>, the Provider's
  \<open>importKey(format, bytes, algorithm, extractable, usages)\<close> on the new container.
\<close>

definition key_import ::
  "provider \<Rightarrow> nat \<Rightarrow> jsval \<Rightarrow> jsval \<Rightarrow> jsval \<Rightarrow> jsval \<Rightarrow> jsval \<Rightarrow> native_state
     \<Rightarrow> (error + unit) \<times> native_state" where
  "key_import p c format keyData algorithm extractable keyUsages s =
     (let ps = [(''format'', Val format), (''keyData'', Val (getBuffer keyData)),
                (''algorithm'', Val algorithm), (''extractable'', Val extractable),
                (''keyUsages'', Val keyUsages)]
      in (await (respond p (Key c) ''import'' ps), native_call (Key c) ''import'' ps s))"

text \<open>
  Modelled from the spec: \<open>_CryptoKey.derive\<close>, the Provider's
  \<open>deriveBits(algorithm, baseKeyRef, derivedAlgorithmSpec, extractable, usages)\<close> on the
  new container, used by both \<open>deriveBits\<close> and \<open>deriveKey\<close>.
\<close>

definition key_derive ::
  "provider \<Rightarrow> nat \<Rightarrow> jsval \<Rightarrow> jsval \<Rightarrow> jsval \<Rightarrow> jsval \<Rightarrow> jsval \<Rightarrow> native_state
     \<Rightarrow> (error + unit) \<times> native_state" where
  "key_derive p c algorithm baseKey derivedKeyAlgorithm extractable keyUsages s =
     (case getCid baseKey of
        Inl e \<Rightarrow> (Inl e, s)
      | Inr b \<Rightarrow>
          (let ps = [(''algorithm'', Val algorithm), (''baseKey'', Cid b),
                     (''derivedKeyAlgorithm'', Val derivedKeyAlgorithm),
                     (''extractable'', Val extractable), (''keyUsages'', Val keyUsages)]
           in (await (respond p (Key c) ''derive'' ps), native_call (Key c) ''derive'' ps s)))"

text \<open>
  Modelled from the spec: the class \<open>CryptoKey\<close> of \<open>./CryptoKey\<close>, the
  specification's KeyHandle (section 3) with its attributes \<open>algorithm\<close>,
  \<open>extractable\<close>, \<open>usages\<close>, \<open>type\<close> and the reference to the Provider-side object.
\<close>

record crypto_key =
  key_cid :: nat
  key_algorithm :: jsval
  key_extractable :: jsval
  key_usages :: held
  key_type :: "string option"

section \<open>NativeCrypto\<close>

definition view_buffer :: "jsval \<Rightarrow> jsval" where
  "view_buffer data = (case data of JView v \<Rightarrow> JArrayBuffer (buffer v) | x \<Rightarrow> x)"

text \<open>\<open>NativeCrypto.subtleDigest\<close>, lines 264 to 281. The success callback throws inside
  the bridge when the result is not a non-empty \<open>ArrayBuffer\<close>; the promise is then
  never settled.\<close>

definition subtleDigest :: "provider \<Rightarrow> jsval \<Rightarrow> jsval \<Rightarrow> native_state \<Rightarrow> jsval promise \<times> native_state" where
  "subtleDigest p algorithm data s =
     (let ps = [(''algorithm'', Val algorithm), (''data'', Val (view_buffer data))]
      in ((case respond p CryptoSingleton ''subtleDigest'' ps of
             Succeeds result \<Rightarrow>
               (case result of
                  JArrayBuffer b \<Rightarrow> if ab_byteLength b = 0 then Pending else Resolved result
                | x \<Rightarrow> Pending)
           | Fails reason \<Rightarrow> Rejected (ProviderFailure reason)),
          native_call CryptoSingleton ''subtleDigest'' ps s))"

text \<open>
  The algorithm parameter of \<open>NativeCrypto.subtleDecrypt\<close> and \<open>subtleEncrypt\<close>, of
  declared type \<open>{name: string, iv: ArrayBuffer | TypedArray, tagLength?: number}\<close>.
  \<open>name\<close> is forwarded and \<open>iv\<close> is handed to \<open>getBuffer\<close>, whatever they are;
  \<open>tagLength\<close> is tested with \<open>isNaN\<close> and is kept at its declared type. The class
  \<open>NativeCrypto\<close> is not exported: its methods are called by the facade only, after the
  facade's checks.
\<close>

record cipher_algorithm =
  alg_name :: jsval
  alg_iv :: jsval
  alg_tagLength :: "jsnum option"

text \<open>\<open>isNaN(tagLength as number) ? 128 : tagLength\<close>, lines 299 and 338.\<close>

definition effective_tagLength :: "jsnum option \<Rightarrow> jsval" where
  "effective_tagLength tagLength =
     (if js_isNaN tagLength then JNum (Finite 128) else number_or_undefined tagLength)"

text \<open>The parameters \<open>NativeCrypto.subtleDecrypt\<close> (lines 283 to 306) and
  \<open>NativeCrypto.subtleEncrypt\<close> (lines 322 to 345) hand to the bridge. The two differ
  in how they read the key's \<open>cid\<close> and the data buffer.\<close>

definition decrypt_params :: "cipher_algorithm \<Rightarrow> jsval \<Rightarrow> jsval \<Rightarrow> error + (string \<times> param) list" where
  "decrypt_params alg key data =
     (case getCid key of
        Inl e \<Rightarrow> Inl e
      | Inr c \<Rightarrow>
          Inr [(''algorithm'', Val (JObject [(''name'', alg_name alg), (''iv'', getBuffer (alg_iv alg)),
                                            (''tagLength'', effective_tagLength (alg_tagLength alg))])),
               (''key'', Cid c),
               (''data'', Val (view_buffer data))])"

definition encrypt_params :: "cipher_algorithm \<Rightarrow> jsval \<Rightarrow> jsval \<Rightarrow> error + (string \<times> param) list" where
  "encrypt_params alg key data =
     (case getCid key of
        Inl e \<Rightarrow> Inl e
      | Inr c \<Rightarrow>
          Inr [(''algorithm'', Val (JObject [(''name'', alg_name alg), (''iv'', getBuffer (alg_iv alg)),
                                            (''tagLength'', effective_tagLength (alg_tagLength alg))])),
               (''key'', Cid c),
               (''data'', Val (getBuffer data))])"

text \<open>A throw inside the executor of \<open>new Promise\<close> rejects the promise.\<close>

definition subtleDecrypt ::
  "provider \<Rightarrow> cipher_algorithm \<Rightarrow> jsval \<Rightarrow> jsval \<Rightarrow> native_state \<Rightarrow> jsval promise \<times> native_state" where
  "subtleDecrypt p alg key data s =
     (case decrypt_params alg key data of
        Inl e \<Rightarrow> (Rejected e, s)
      | Inr ps \<Rightarrow> (settle (respond p CryptoSingleton ''subtleDecrypt'' ps),
                   native_call CryptoSingleton ''subtleDecrypt'' ps s))"

definition subtleEncrypt ::
  "provider \<Rightarrow> cipher_algorithm \<Rightarrow> jsval \<Rightarrow> jsval \<Rightarrow> native_state \<Rightarrow> jsval promise \<times> native_state" where
  "subtleEncrypt p alg key data s =
     (case encrypt_params alg key data of
        Inl e \<Rightarrow> (Rejected e, s)
      | Inr ps \<Rightarrow> (settle (respond p CryptoSingleton ''subtleEncrypt'' ps),
                   native_call CryptoSingleton ''subtleEncrypt'' ps s))"

text \<open>\<open>NativeCrypto.subtleExportKey\<close>, lines 308 to 320, for a key container given by
  its \<open>cid\<close>.\<close>

definition subtleExportKey :: "provider \<Rightarrow> string \<Rightarrow> nat \<Rightarrow> native_state \<Rightarrow> jsval promise \<times> native_state" where
  "subtleExportKey p format c s =
     (let ps = [(''format'', Val (JStr format)), (''key'', Cid c)]
      in (settle (respond p CryptoSingleton ''subtleExportKey'' ps),
          native_call CryptoSingleton ''subtleExportKey'' ps s))"

section \<open>SubtleCrypto\<close>

definition validAlgorithms :: "string list" where
  "validAlgorithms = [''SHA-1'', ''SHA-256'', ''SHA-384'', ''SHA-512'']"

fun truthy :: "jsval \<Rightarrow> bool" where
  "truthy JUndefined = False"
| "truthy JNull = False"
| "truthy (JBool b) = b"
| "truthy (JNum n) = (n \<noteq> NaN \<and> n \<noteq> Finite 0)"
| "truthy (JStr s) = (s \<noteq> [])"
| "truthy v = True"

text \<open>\<open>SubtleCrypto.digest\<close>, lines 50 to 63: every failed check returns
  \<open>Promise.reject(...)\<close>; none throws.\<close>

definition digest_body ::
  "provider \<Rightarrow> jsval list \<Rightarrow> native_state \<Rightarrow> (error + jsval promise) \<times> native_state" where
  "digest_body p args s =
     (if length args < 2 then (Inr (Rejected (NotEnoughArguments ''SubtleCrypto.digest'')), s)
      else if arg args 0 \<notin> set (map JStr validAlgorithms)
      then (Inr (Rejected (UnrecognizedName (arg args 0))), s)
      else if \<not> truthy (getBuffer (arg args 1))
      then (Inr (Rejected (NotAcceptedArrayType (arg args 1))), s)
      else (let (pr, s1) = subtleDigest p (arg args 0) (arg args 1) s in (Inr pr, s1)))"

definition digest :: "provider \<Rightarrow> jsval list \<Rightarrow> native_state \<Rightarrow> jsval promise \<times> native_state" where
  "digest p args s = async (digest_body p args s)"

text \<open>\<open>SubtleCrypto.importKey\<close>, lines 65 to 101: the checks of the algorithm, lines 77
  to 88, and all the checks, lines 75 to 90.\<close>

definition importKey_algorithm_checks :: "jsval \<Rightarrow> error + unit" where
  "importKey_algorithm_checks alg =
     (case alg of
        JStr a \<Rightarrow> allowOnlyValues alg [''ECDH'', ''AES-GCM'', ''HKDF''] ''algorithm''
      | x \<Rightarrow>
          first_error
            [checkType alg TObject ''algorithm'' False,
             with_prop alg ''name'' (\<lambda>name. allowOnlyValues name [''ECDH'', ''AES-GCM''] ''algorithm.name''),
             with_prop alg ''name'' (\<lambda>name.
               if name = JStr ''ECDH''
               then first_error
                      [allowOnlyKeys alg [''name'', ''namedCurve''],
                       with_prop alg ''namedCurve'' (\<lambda>c. allowOnlyValues c [''P-256''] ''algorithm.namedCurve'')]
               else allowOnlyKeys alg [''name''])])"

definition importKey_checks :: "jsval \<Rightarrow> jsval \<Rightarrow> jsval \<Rightarrow> jsval \<Rightarrow> jsval \<Rightarrow> error + unit" where
  "importKey_checks format keyData alg extr keyUsages =
     first_error
       [allowOnlyValues format [''spki'', ''pkcs8'', ''raw''] ''format'',
        checkType (getBuffer keyData) TArrayBuffer ''keyData'' False,
        importKey_algorithm_checks alg,
        checkType extr TBoolean ''extractable'' False,
        checkType keyUsages TArray ''keyUsages'' False]"

text \<open>Lines 92 to 94: \<open>{name: X}\<close> alone becomes \<open>X\<close>.\<close>

definition algorithmInternal :: "jsval \<Rightarrow> error + jsval" where
  "algorithmInternal alg =
     (case js_keys alg of
        Inl e \<Rightarrow> Inl e
      | Inr algorithmKeys \<Rightarrow>
          if length algorithmKeys = 1 \<and> hd algorithmKeys = ''name''
          then js_get alg ''name''
          else Inr alg)"

definition frozen_copy :: "jsval \<Rightarrow> error + held" where
  "frozen_copy keyUsages = (case js_concat keyUsages of Inl e \<Rightarrow> Inl e | Inr c \<Rightarrow> Inr (js_freeze c))"

definition importKey_body ::
  "provider \<Rightarrow> jsval list \<Rightarrow> native_state \<Rightarrow> (error + crypto_key promise) \<times> native_state" where
  "importKey_body p args s =
     (if length args \<noteq> 5 then (Inl (ExpectedArguments 5 (length args)), s)
      else
        (case importKey_checks (arg args 0) (arg args 1) (arg args 2) (arg args 3) (arg args 4) of
           Inl e \<Rightarrow> (Inl e, s)
         | Inr u \<Rightarrow>
             (let (nativeObject, s1) = new_CryptoKey s
              in case algorithmInternal (arg args 2) of
                   Inl e \<Rightarrow> (Inl e, s1)
                 | Inr internal \<Rightarrow>
                     (case key_import p nativeObject (arg args 0) (arg args 1) internal (arg args 3) (arg args 4) s1 of
                        (Inl e, s2) \<Rightarrow> (Inl e, s2)
                      | (Inr u, s2) \<Rightarrow>
                          (case frozen_copy (arg args 4) of
                             Inl e \<Rightarrow> (Inl e, s2)
                           | Inr fr \<Rightarrow>
                               (Inr (Resolved \<lparr>key_cid = nativeObject, key_algorithm = internal,
                                               key_extractable = arg args 3, key_usages = fr,
                                               key_type = None\<rparr>),
                                s2))))))"

definition importKey :: "provider \<Rightarrow> jsval list \<Rightarrow> native_state \<Rightarrow> crypto_key promise \<times> native_state" where
  "importKey p args s = async (importKey_body p args s)"

text \<open>\<open>checkDeriveAlgorithm\<close>, lines 349 to 368.\<close>

definition checkDeriveAlgorithm :: "jsval \<Rightarrow> error + unit" where
  "checkDeriveAlgorithm alg =
     (if alg = JStr ''HKDF'' then Inr ()
      else if alg = JStr ''AES-GCM'' then Inl AesGcmNotSupported
      else first_error
        [allowOnlyKeys alg [''name'', ''namedCurve'', ''public'', ''hash'', ''salt'', ''info''],
         with_prop alg ''name'' (\<lambda>name. allowOnlyValues name [''ECDH'', ''HKDF''] ''algorithm.name''),
         with_prop alg ''name'' (\<lambda>name.
           if name = JStr ''ECDH''
           then first_error
                  [with_prop alg ''namedCurve'' (\<lambda>c. allowOnlyValues c [''P-256''] ''algorithm.namedCurve''),
                   with_prop alg ''public'' (\<lambda>k. checkType k TCryptoKey ''algorithm.public'' False)]
           else if name = JStr ''HKDF''
           then first_error
                  [with_prop alg ''hash'' (\<lambda>h. checkType h TString ''algorithm.hash'' False),
                   with_prop alg ''salt'' (\<lambda>x. checkType (getBuffer x) TArrayBuffer ''algorithm.salt'' False),
                   with_prop alg ''info'' (\<lambda>x. checkType (getBuffer x) TArrayBuffer ''algorithm.info'' False)]
           else Inr ())])"

text \<open>\<open>SubtleCrypto.deriveBits\<close>, lines 103 to 123. The \<open>try\<close> block awaits the
  derivation and, on success, runs the executor of the export promise, which issues the
  export call; it returns that promise without awaiting it. The \<open>finally\<close> block then
  disposes the key container, on both paths, and only then is the result of
  \<open>deriveBits\<close> settled.\<close>

definition deriveBits_checks :: "jsval \<Rightarrow> jsval \<Rightarrow> jsval \<Rightarrow> error + unit" where
  "deriveBits_checks alg baseKey len =
     first_error
       [checkDeriveAlgorithm alg,
        checkType baseKey TCryptoKey ''baseKey'' False,
        checkType len TNumber ''length'' False]"

definition deriveBits_body ::
  "provider \<Rightarrow> jsval list \<Rightarrow> native_state \<Rightarrow> (error + jsval promise) \<times> native_state" where
  "deriveBits_body p args s =
     (if length args \<noteq> 3 then (Inl (ExpectedArguments 3 (length args)), s)
      else
        (case deriveBits_checks (arg args 0) (arg args 1) (arg args 2) of
           Inl e \<Rightarrow> (Inl e, s)
         | Inr u \<Rightarrow>
             (let (nativeObject, s1) = new_CryptoKey s
              in case key_derive p nativeObject (arg args 0) (arg args 1)
                        (JObject [(''length'', arg args 2), (''name'', JStr ''AES-GCM'')])
                        (JBool True) (JArray False []) s1 of
                   (Inl e, s2) \<Rightarrow> (Inl e, dispose nativeObject s2)
                 | (Inr u, s2) \<Rightarrow>
                     (let (exported, s3) = subtleExportKey p ''raw'' nativeObject s2
                      in (Inr exported, dispose nativeObject s3)))))"

definition deriveBits :: "provider \<Rightarrow> jsval list \<Rightarrow> native_state \<Rightarrow> jsval promise \<times> native_state" where
  "deriveBits p args s = async (deriveBits_body p args s)"

text \<open>\<open>SubtleCrypto.deriveKey\<close>, lines 125 to 150.\<close>

definition deriveKey_checks :: "jsval \<Rightarrow> jsval \<Rightarrow> jsval \<Rightarrow> jsval \<Rightarrow> jsval \<Rightarrow> error + unit" where
  "deriveKey_checks alg baseKey derivedKeyAlgorithm extr keyUsages =
     first_error
       [checkDeriveAlgorithm alg,
        allowOnlyKeys derivedKeyAlgorithm [''name'', ''length''],
        with_prop derivedKeyAlgorithm ''name'' (\<lambda>n. allowOnlyValues n [''AES-GCM''] ''derivedKeyAlgorithm.name''),
        with_prop derivedKeyAlgorithm ''length'' (\<lambda>l. checkType l TNumber ''derivedKeyAlgorithm.length'' False),
        checkType baseKey TCryptoKey ''baseKey'' False,
        checkType extr TBoolean ''extractable'' False,
        checkType keyUsages TArray ''keyUsages'' False]"

definition deriveKey_body ::
  "provider \<Rightarrow> jsval list \<Rightarrow> native_state \<Rightarrow> (error + crypto_key promise) \<times> native_state" where
  "deriveKey_body p args s =
     (if length args \<noteq> 5 then (Inl (ExpectedArguments 5 (length args)), s)
      else
        (case deriveKey_checks (arg args 0) (arg args 1) (arg args 2) (arg args 3) (arg args 4) of
           Inl e \<Rightarrow> (Inl e, s)
         | Inr u \<Rightarrow>
             (let (nativeObject, s1) = new_CryptoKey s
              in case key_derive p nativeObject (arg args 0) (arg args 1) (arg args 2) (arg args 3) (arg args 4) s1 of
                   (Inl e, s2) \<Rightarrow> (Inl e, s2)
                 | (Inr u, s2) \<Rightarrow>
                     (case frozen_copy (arg args 4) of
                        Inl e \<Rightarrow> (Inl e, s2)
                      | Inr fr \<Rightarrow>
                          (Inr (Resolved \<lparr>key_cid = nativeObject, key_algorithm = arg args 0,
                                          key_extractable = arg args 3, key_usages = fr,
                                          key_type = Some ''secret''\<rparr>),
                           s2)))))"

definition deriveKey :: "provider \<Rightarrow> jsval list \<Rightarrow> native_state \<Rightarrow> crypto_key promise \<times> native_state" where
  "deriveKey p args s = async (deriveKey_body p args s)"

text \<open>\<open>SubtleCrypto.decrypt\<close>, lines 152 to 173, and \<open>SubtleCrypto.encrypt\<close>, lines
  175 to 196: the same checks, then the call of \<open>NativeCrypto\<close>.\<close>

definition cipher_checks :: "jsval \<Rightarrow> jsval \<Rightarrow> jsval \<Rightarrow> error + unit" where
  "cipher_checks alg key data =
     first_error
       [allowOnlyKeys alg [''name'', ''iv'', ''tagLength''],
        with_prop alg ''name'' (\<lambda>n. allowOnlyValues n [''AES-GCM''] ''algorithm.name''),
        with_prop alg ''tagLength'' (\<lambda>t. checkType t TNumber ''algorithm.tagLength'' True),
        with_prop alg ''iv'' (\<lambda>iv. checkType (getBuffer iv) TArrayBuffer ''algorithm.iv'' False),
        checkType key TCryptoKey ''key'' False,
        checkType (getBuffer data) TArrayBuffer ''data'' False]"

text \<open>
  The algorithm of a call, at the type \<open>NativeCrypto\<close> declares for it. The checks of
  lines 164 to 167 and 187 to 190 have passed when the facade hands the algorithm over:
  it is then an object whose \<open>tagLength\<close> is \<open>undefined\<close> or a number (lemma
  \<open>cipher_checks_declared\<close> below). A \<open>tagLength\<close> of another kind is what \<open>checkType\<close>
  refuses, and a missing object is what reading its properties throws on.
\<close>

definition declared_algorithm :: "jsval \<Rightarrow> error + cipher_algorithm" where
  "declared_algorithm alg =
     with_prop alg ''name'' (\<lambda>name. with_prop alg ''iv'' (\<lambda>iv. with_prop alg ''tagLength'' (\<lambda>tagLength.
       case tagLength of
         JUndefined \<Rightarrow> Inr \<lparr>alg_name = name, alg_iv = iv, alg_tagLength = None\<rparr>
       | JNum n \<Rightarrow> Inr \<lparr>alg_name = name, alg_iv = iv, alg_tagLength = Some n\<rparr>
       | x \<Rightarrow> Inl (WrongType ''algorithm.tagLength'' tagLength))))"

definition decrypt_body ::
  "provider \<Rightarrow> jsval list \<Rightarrow> native_state \<Rightarrow> (error + jsval promise) \<times> native_state" where
  "decrypt_body p args s =
     (if length args \<noteq> 3 then (Inl (ExpectedArguments 3 (length args)), s)
      else
        (case cipher_checks (arg args 0) (arg args 1) (arg args 2) of
           Inl e \<Rightarrow> (Inl e, s)
         | Inr u \<Rightarrow>
             (case declared_algorithm (arg args 0) of
                Inl e \<Rightarrow> (Inl e, s)
              | Inr alg \<Rightarrow>
                  (let (pr, s1) = subtleDecrypt p alg (arg args 1) (arg args 2) s in (Inr pr, s1)))))"

definition decrypt :: "provider \<Rightarrow> jsval list \<Rightarrow> native_state \<Rightarrow> jsval promise \<times> native_state" where
  "decrypt p args s = async (decrypt_body p args s)"

definition encrypt_body ::
  "provider \<Rightarrow> jsval list \<Rightarrow> native_state \<Rightarrow> (error + jsval promise) \<times> native_state" where
  "encrypt_body p args s =
     (if length args \<noteq> 3 then (Inl (ExpectedArguments 3 (length args)), s)
      else
        (case cipher_checks (arg args 0) (arg args 1) (arg args 2) of
           Inl e \<Rightarrow> (Inl e, s)
         | Inr u \<Rightarrow>
             (case declared_algorithm (arg args 0) of
                Inl e \<Rightarrow> (Inl e, s)
              | Inr alg \<Rightarrow>
                  (let (pr, s1) = subtleEncrypt p alg (arg args 1) (arg args 2) s in (Inr pr, s1)))))"

definition encrypt :: "provider \<Rightarrow> jsval list \<Rightarrow> native_state \<Rightarrow> jsval promise \<times> native_state" where
  "encrypt p args s = async (encrypt_body p args s)"

section \<open>The words of the specification\<close>

text \<open>
  The specification's buffer-like value: a byte buffer, or a view over one with non-float
  element type.
\<close>

fun buffer_like :: "jsval \<Rightarrow> bool" where
  "buffer_like (JArrayBuffer b) = True"
| "buffer_like (JView v) = (kind v \<noteq> Float32Array \<and> kind v \<noteq> Float64Array)"
| "buffer_like x = False"

section \<open>Example inputs\<close>

definition ex_buffer :: array_buffer where
  "ex_buffer = \<lparr>addr = 0, ab_byteLength = 8\<rparr>"

text \<open>\<open>new Uint8Array(buffer, 0, 4)\<close> and \<open>new Uint8Array(buffer, 4, 4)\<close> on a buffer
  of 8 bytes.\<close>

definition ex_view :: array_buffer_view where
  "ex_view = \<lparr>kind = Uint8Array, buffer = ex_buffer, byteOffset = 0, byteLength = 4\<rparr>"

definition ex_offset_view :: array_buffer_view where
  "ex_offset_view = \<lparr>kind = Uint8Array, buffer = ex_buffer, byteOffset = 4, byteLength = 4\<rparr>"

definition ex_float_view :: array_buffer_view where
  "ex_float_view = \<lparr>kind = Float32Array, buffer = ex_buffer, byteOffset = 0, byteLength = 8\<rparr>"

definition ex_heap :: heap where
  "ex_heap = (\<lambda>a. if a = 0 then [0, 0, 0, 0, 0, 0, 0, 0] else [])"

definition ex_state :: native_state where
  "ex_state = \<lparr>next_cid = 1, calls = []\<rparr>"

text \<open>A Provider that returns the bytes 1, 2, ... and grants every request; one that
  returns one random byte too many; one that refuses every request.\<close>

definition ex_provider :: provider where
  "ex_provider =
     \<lparr>random_bytes = (\<lambda>n. map (\<lambda>i. word_of_nat (Suc i)) [0..<n]),
      respond = (\<lambda>t m ps. Succeeds (JArrayBuffer \<lparr>addr = 1, ab_byteLength = 32\<rparr>))\<rparr>"

definition generous_provider :: provider where
  "generous_provider =
     \<lparr>random_bytes = (\<lambda>n. replicate (Suc n) 7),
      respond = (\<lambda>t m ps. Succeeds JUndefined)\<rparr>"

definition refusing_provider :: provider where
  "refusing_provider =
     \<lparr>random_bytes = (\<lambda>n. []),
      respond = (\<lambda>t m ps. Fails (JStr ''refused''))\<rparr>"

definition ex_usages :: jsval where
  "ex_usages = JArray False [JStr ''deriveKey'']"

definition ex_ecdh :: jsval where
  "ex_ecdh = JObject [(''name'', JStr ''ECDH''), (''namedCurve'', JStr ''P-256'')]"

definition ex_ecdh_reversed :: jsval where
  "ex_ecdh_reversed = JObject [(''namedCurve'', JStr ''P-256''), (''name'', JStr ''ECDH'')]"

definition ex_hkdf :: jsval where
  "ex_hkdf = JObject [(''name'', JStr ''HKDF''), (''hash'', JStr ''SHA-256''),
                      (''salt'', JArrayBuffer ex_buffer), (''info'', JArrayBuffer ex_buffer)]"

definition ex_aes_params :: jsval where
  "ex_aes_params = JObject [(''name'', JStr ''AES-GCM''), (''iv'', JArrayBuffer ex_buffer)]"

definition ex_aes_params_96 :: jsval where
  "ex_aes_params_96 = JObject [(''name'', JStr ''AES-GCM''), (''iv'', JArrayBuffer ex_buffer),
                               (''tagLength'', JNum (Finite 96))]"

section \<open>Crypto.getRandomValues: theorems\<close>

lemma truthy_getBuffer: "truthy (getBuffer x) = buffer_like x"
  by (cases x) simp_all

lemma getBuffer_kind: "has_kind (getBuffer x) TArrayBuffer = buffer_like x"
  by (cases x) simp_all

text \<open>
  When the view starts at offset 0 of its buffer, \<open>getRandomValues\<close> returns the view
  it was given and the view then shows exactly the Provider's bytes.
\<close>

lemma getRandomValues_fills_view_at_offset_0:
  assumes "kind v \<noteq> Float32Array" and "kind v \<noteq> Float64Array"
    and "byteOffset v = 0" and "byteLength v \<le> ab_byteLength (buffer v)"
    and "length (random_bytes p (byteLength v)) = byteLength v"
    and "getRandomValues p (JView v # rest) h s = (r, h', s')"
  shows "r = Inr (JView v) \<and> view_bytes h' v = random_bytes p (byteLength v)"
  using assms
  by (auto simp add: getRandomValues_def native_getRandomValues_def arg_def Let_def uint8_set_def
      view_bytes_def)

text \<open>
  What \<open>getRandomValues\<close> does not accept, a float view or a value that is not a view,
  it refuses before the Provider is called.
\<close>

lemma getRandomValues_refuses_float_and_non_views:
  assumes "args \<noteq> []"
    and "\<not> (\<exists>v. arg args 0 = JView v \<and> kind v \<noteq> Float32Array \<and> kind v \<noteq> Float64Array)"
  shows "getRandomValues p args h s = (Inl (NotAcceptedArrayType (arg args 0)), h, s)"
  using assms by (cases "arg args 0") (auto simp add: getRandomValues_def)

text \<open>
  Claim C5, at the input where the code departs from it. The view
  \<open>new Uint8Array(buffer, 4, 4)\<close> passes the checks and the Provider returns the four
  bytes 1, 2, 3, 4. \<open>getRandomValues\<close> returns the view, but the bytes were written at
  the start of the underlying buffer, not at the view's offset: the view still shows
  0, 0, 0, 0, and the first four bytes of the buffer, which the view does not cover, were
  overwritten.
\<close>

theorem getRandomValues_offset_view_not_filled:
  "fst (getRandomValues ex_provider [JView ex_offset_view] ex_heap ex_state) = Inr (JView ex_offset_view)
   \<and> random_bytes ex_provider (byteLength ex_offset_view) = [1, 2, 3, 4]
   \<and> view_bytes (fst (snd (getRandomValues ex_provider [JView ex_offset_view] ex_heap ex_state))) ex_offset_view
       = [0, 0, 0, 0]
   \<and> fst (snd (getRandomValues ex_provider [JView ex_offset_view] ex_heap ex_state)) 0
       = [1, 2, 3, 4, 0, 0, 0, 0]"
  by (simp add: getRandomValues_def native_getRandomValues_def arg_def Let_def uint8_set_def
      ex_offset_view_def ex_provider_def ex_buffer_def ex_heap_def view_bytes_def upt_rec)

text \<open>
  Claim C8 as stated fails: a call of \<open>getRandomValues\<close> with two arguments, the first
  an accepted view, does not fail; it returns the view.
\<close>

theorem getRandomValues_two_arguments_succeed:
  "length [JView ex_view, JNum (Finite 3)] \<noteq> 1
   \<and> fst (getRandomValues ex_provider [JView ex_view, JNum (Finite 3)] ex_heap ex_state) = Inr (JView ex_view)"
  by (simp add: getRandomValues_def native_getRandomValues_def arg_def Let_def uint8_set_def
      ex_view_def ex_provider_def ex_buffer_def)

text \<open>
  Claim C8, amended: \<open>getRandomValues\<close> has minimum arity 1. A call with no argument
  fails with an argument-count error, before any Provider call and leaving the byte
  store alone; a call with one or more arguments does exactly what the call with its
  first argument alone does, so arguments after the first are ignored.
\<close>

theorem getRandomValues_minimum_arity:
  "(args = [] \<longrightarrow>
      getRandomValues p args h s = (Inl (NotEnoughArguments ''Crypto.getRandomValues''), h, s)
      \<and> error_class_of (NotEnoughArguments ''Crypto.getRandomValues'') = ArgumentCountError)
   \<and> (args \<noteq> [] \<longrightarrow> getRandomValues p args h s = getRandomValues p [hd args] h s)"
  by (cases args) (simp_all add: getRandomValues_def arg_def)

theorem getRandomValues_minimum_arity_witness:
  "getRandomValues ex_provider [] ex_heap ex_state =
     (Inl (NotEnoughArguments ''Crypto.getRandomValues''), ex_heap, ex_state)
   \<and> getRandomValues ex_provider [JView ex_view, JNum (Finite 3)] ex_heap ex_state =
       getRandomValues ex_provider [JView ex_view] ex_heap ex_state"
  using getRandomValues_minimum_arity [of "[]" ex_provider ex_heap ex_state]
    getRandomValues_minimum_arity [of "[JView ex_view, JNum (Finite 3)]" ex_provider ex_heap ex_state]
  by simp

text \<open>
  Claim C9: for an accepted view, whenever the number of bytes the Provider returns
  differs from the view's \<open>byteLength\<close>, whether fewer or more, \<open>getRandomValues\<close>
  throws the not-enough-random-bytes error, and the byte store, hence the caller's view,
  is left as it was. The only effect is the recorded Provider call.
\<close>

theorem getRandomValues_length_mismatch:
  assumes "kind v \<noteq> Float32Array" and "kind v \<noteq> Float64Array"
    and "length (random_bytes p (byteLength v)) \<noteq> byteLength v"
  shows "getRandomValues p (JView v # rest) h s =
           (Inl NotEnoughRandomBytes, h,
            native_call CryptoSingleton ''getRandomValues''
              [(''byteLength'', Val (JNum (Finite (real (byteLength v)))))] s)"
  using assms by (simp add: getRandomValues_def native_getRandomValues_def arg_def Let_def)

text \<open>The witness: the Provider returns five bytes where four were requested.\<close>

theorem getRandomValues_length_mismatch_witness:
  "length (random_bytes generous_provider (byteLength ex_view)) > byteLength ex_view
   \<and> getRandomValues generous_provider [JView ex_view] ex_heap ex_state =
       (Inl NotEnoughRandomBytes, ex_heap,
        native_call CryptoSingleton ''getRandomValues'' [(''byteLength'', Val (JNum (Finite 4)))] ex_state)"
  using getRandomValues_length_mismatch [of ex_view generous_provider "[]" ex_heap ex_state]
  by (simp add: ex_view_def generous_provider_def)

section \<open>What the checks establish\<close>

lemma first_error_Cons:
  "first_error (c # cs) = (case c of Inl e \<Rightarrow> Inl e | Inr u \<Rightarrow> first_error cs)"
  by (cases c) simp_all

lemma first_error_Inr_iff: "first_error cs = Inr u \<longleftrightarrow> list_all (\<lambda>c. c = Inr ()) cs"
  by (induction cs rule: first_error.induct) auto

lemma first_error_Inl: "c \<in> set cs \<Longrightarrow> c = Inl e \<Longrightarrow> \<exists>e'. first_error cs = Inl e'"
  by (induction cs rule: first_error.induct) auto

lemma allowOnlyKeys_Inr:
  "allowOnlyKeys (JObject kvs) allowed = Inr u \<longleftrightarrow> set (map fst kvs) \<subseteq> set allowed"
proof (cases "filter (\<lambda>k. k \<notin> set allowed) (map fst kvs)")
  case Nil
  then show ?thesis by (auto simp add: filter_empty_conv)
next
  case (Cons k ks)
  then have "k \<in> set (filter (\<lambda>k. k \<notin> set allowed) (map fst kvs))" by simp
  then have "k \<in> set (map fst kvs)" and "k \<notin> set allowed" by simp_all
  then show ?thesis using Cons by auto
qed

lemma checkType_Inr:
  "checkType v t n nullable = Inr u \<longleftrightarrow> (nullable \<and> v = JUndefined) \<or> has_kind v t"
  by (simp add: checkType_def)

lemma has_kind_TArray: "has_kind v TArray \<longleftrightarrow> (\<exists>f xs. v = JArray f xs)"
  by (cases v) simp_all

lemma has_kind_TCryptoKey: "has_kind v TCryptoKey \<longleftrightarrow> (\<exists>c. v = JCryptoKey c)"
  by (cases v) simp_all

lemma has_kind_TNumber: "has_kind v TNumber \<longleftrightarrow> (\<exists>x. v = JNum (Finite x))"
  by (cases v) (auto split: jsnum.splits)

lemma importKey_algorithm_checks_string:
  "importKey_algorithm_checks (JStr a) = Inr u \<longleftrightarrow> a \<in> {''ECDH'', ''AES-GCM'', ''HKDF''}"
  by (auto simp add: importKey_algorithm_checks_def allowOnlyValues_def)

lemma importKey_algorithm_checks_object:
  "importKey_algorithm_checks (JObject kvs) = Inr u \<longleftrightarrow>
     (map_of kvs ''name'' = Some (JStr ''ECDH'') \<and> map_of kvs ''namedCurve'' = Some (JStr ''P-256'')
        \<and> set (map fst kvs) \<subseteq> {''name'', ''namedCurve''})
     \<or> (map_of kvs ''name'' = Some (JStr ''AES-GCM'') \<and> set (map fst kvs) \<subseteq> {''name''})"
  by (auto simp add: importKey_algorithm_checks_def first_error_Inr_iff with_prop_def checkType_def
      allowOnlyValues_def allowOnlyKeys_Inr simp del: allowOnlyKeys.simps split: option.splits)

lemma importKey_algorithm_checks_shape:
  assumes "importKey_algorithm_checks alg = Inr ()"
  shows "(\<exists>a. alg = JStr a) \<or> (\<exists>kvs. alg = JObject kvs)"
  using assms
  by (cases alg)
     (simp_all add: importKey_algorithm_checks_def first_error_Cons with_prop_def checkType_def
       allowOnlyValues_def)

lemma importKey_algorithm_checks_HKDF_object:
  assumes "map_of kvs ''name'' = Some (JStr ''HKDF'')"
  shows "importKey_algorithm_checks (JObject kvs) = Inl (NotAllowedValue ''algorithm.name'' (JStr ''HKDF''))"
  using assms
  by (simp add: importKey_algorithm_checks_def checkType_def with_prop_def allowOnlyValues_def)

lemma algorithmInternal_string: "length a \<noteq> 1 \<Longrightarrow> algorithmInternal (JStr a) = Inr (JStr a)"
  by (simp add: algorithmInternal_def)

lemma importKey_Resolved:
  assumes "importKey p args s = (Resolved k, s')"
  shows "length args = 5"
    and "importKey_checks (arg args 0) (arg args 1) (arg args 2) (arg args 3) (arg args 4) = Inr ()"
    and "algorithmInternal (arg args 2) = Inr (key_algorithm k)"
    and "frozen_copy (arg args 4) = Inr (key_usages k)"
    and "key_extractable k = arg args 3"
    and "key_cid k = next_cid s"
  using assms
  by (auto simp add: importKey_def importKey_body_def async_def new_CryptoKey_def Let_def split:
      if_splits sum.splits prod.splits)

lemma importKey_rejects_HKDF_object:
  assumes "arg args 2 = JObject kvs" and "map_of kvs ''name'' = Some (JStr ''HKDF'')"
  shows "\<exists>e. importKey p args s = (Rejected e, s)"
proof (cases "length args = 5")
  case False
  then show ?thesis by (simp add: importKey_def importKey_body_def async_def)
next
  case True
  have "\<exists>e. importKey_checks (arg args 0) (arg args 1) (arg args 2) (arg args 3) (arg args 4) = Inl e"
    unfolding importKey_checks_def
    by (rule first_error_Inl [where c = "importKey_algorithm_checks (arg args 2)"])
       (simp_all add: assms importKey_algorithm_checks_HKDF_object)
  then show ?thesis using True by (auto simp add: importKey_def importKey_body_def async_def)
qed

lemma importKey_HKDF_object_error:
  assumes "fmt \<in> set (map JStr [''spki'', ''pkcs8'', ''raw''])" and "buffer_like kd"
    and "map_of kvs ''name'' = Some (JStr ''HKDF'')"
  shows "importKey p [fmt, kd, JObject kvs, ex, us] s
           = (Rejected (NotAllowedValue ''algorithm.name'' (JStr ''HKDF'')), s)"
  using assms
  by (simp add: importKey_def importKey_body_def async_def importKey_checks_def arg_def
      first_error_Cons allowOnlyValues_def
      checkType_def getBuffer_kind importKey_algorithm_checks_HKDF_object)

lemma importKey_HKDF_string_checks:
  assumes "fmt \<in> set (map JStr [''spki'', ''pkcs8'', ''raw''])" and "buffer_like kd"
  shows "importKey_checks fmt kd (JStr ''HKDF'') (JBool b) (JArray f xs) = Inr ()"
  using assms
  by (simp add: importKey_checks_def first_error_Inr_iff allowOnlyValues_def checkType_def
      getBuffer_kind importKey_algorithm_checks_def)

lemma importKey_HKDF_string_resolves:
  assumes "fmt \<in> set (map JStr [''spki'', ''pkcs8'', ''raw''])" and "buffer_like kd"
    and "respond p (Key (next_cid s)) ''import''
           [(''format'', Val fmt), (''keyData'', Val (getBuffer kd)), (''algorithm'', Val (JStr ''HKDF'')),
            (''extractable'', Val (JBool b)), (''keyUsages'', Val (JArray f xs))] = Succeeds v"
  shows "fst (importKey p [fmt, kd, JStr ''HKDF'', JBool b, JArray f xs] s)
           = Resolved \<lparr>key_cid = next_cid s, key_algorithm = JStr ''HKDF'', key_extractable = JBool b,
                       key_usages = NewValue (JArray True xs), key_type = None\<rparr>"
  using assms(3) importKey_HKDF_string_checks [OF assms(1,2), of b f xs]
  by (simp add: importKey_def importKey_body_def async_def arg_def new_CryptoKey_def
      algorithmInternal_def key_import_def
      Let_def await_def frozen_copy_def)

lemma cipher_checks_Inr:
  assumes "cipher_checks alg key data = Inr ()"
  shows "\<exists>kvs. alg = JObject kvs" and "\<exists>c. key = JCryptoKey c"
proof -
  from assms have n: "with_prop alg ''name'' (\<lambda>n. allowOnlyValues n [''AES-GCM''] ''algorithm.name'') = Inr ()"
    and k: "checkType key TCryptoKey ''key'' False = Inr ()"
    by (simp_all add: cipher_checks_def first_error_Inr_iff)
  from n show "\<exists>kvs. alg = JObject kvs"
    by (cases alg) (simp_all add: with_prop_def allowOnlyValues_def)
  from k show "\<exists>c. key = JCryptoKey c"
    by (simp add: checkType_Inr has_kind_TCryptoKey)
qed

text \<open>After the checks of \<open>encrypt\<close> and \<open>decrypt\<close> the tag length is absent or a
  finite number; \<open>NaN\<close> does not pass them.\<close>

lemma cipher_checks_tagLength:
  assumes "cipher_checks alg key data = Inr ()" and "js_get alg ''tagLength'' = Inr tlen"
  shows "tlen = JUndefined \<or> (\<exists>x. tlen = JNum (Finite x))"
proof -
  from assms(1) have "with_prop alg ''tagLength'' (\<lambda>t. checkType t TNumber ''algorithm.tagLength'' True) = Inr ()"
    by (simp add: cipher_checks_def first_error_Inr_iff)
  with assms(2) show ?thesis
    by (simp add: with_prop_def checkType_Inr has_kind_TNumber)
qed

text \<open>After the checks the algorithm has its declared type: \<open>declared_algorithm\<close> does
  not fail, and gives the object's \<open>name\<close>, \<open>iv\<close> and \<open>tagLength\<close>.\<close>

lemma cipher_checks_declared:
  assumes "cipher_checks alg key data = Inr ()" and "js_get alg ''tagLength'' = Inr tlen"
  shows "\<exists>name iv. declared_algorithm alg =
           Inr \<lparr>alg_name = name, alg_iv = iv,
                alg_tagLength = (case tlen of JNum n \<Rightarrow> Some n | _ \<Rightarrow> None)\<rparr>"
proof -
  from cipher_checks_Inr(1) [OF assms(1)] obtain kvs where alg: "alg = JObject kvs" by blast
  from cipher_checks_tagLength [OF assms] show ?thesis
    using assms(2) unfolding alg by (auto simp add: declared_algorithm_def with_prop_def)
qed

lemma effective_tagLength_cases:
  "effective_tagLength None = JNum (Finite 128)"
  "effective_tagLength (Some NaN) = JNum (Finite 128)"
  "x \<noteq> NaN \<Longrightarrow> effective_tagLength (Some x) = JNum x"
  by (simp_all add: effective_tagLength_def)

lemma deriveBits_checks_Inr:
  assumes "deriveBits_checks alg baseKey len = Inr ()"
  shows "\<exists>b. baseKey = JCryptoKey b"
  using assms
  by (simp add: deriveBits_checks_def first_error_Inr_iff checkType_Inr has_kind_TCryptoKey)

lemma checkDeriveAlgorithm_AES_GCM_string:
  "checkDeriveAlgorithm (JStr ''AES-GCM'') = Inl AesGcmNotSupported"
  by (simp add: checkDeriveAlgorithm_def)

lemma checkDeriveAlgorithm_AES_GCM_object:
  assumes "map_of kvs ''name'' = Some (JStr ''AES-GCM'')"
  shows "checkDeriveAlgorithm (JObject kvs) =
           (case allowOnlyKeys (JObject kvs) [''name'', ''namedCurve'', ''public'', ''hash'', ''salt'', ''info''] of
              Inl e \<Rightarrow> Inl e
            | Inr u \<Rightarrow> Inl (NotAllowedValue ''algorithm.name'' (JStr ''AES-GCM'')))"
  using assms
  by (simp add: checkDeriveAlgorithm_def first_error_Cons with_prop_def allowOnlyValues_def
      del: allowOnlyKeys.simps split: sum.splits)

lemma allowOnlyKeys_Inl: "allowOnlyKeys v allowed = Inl e \<Longrightarrow> \<exists>k. e = UnexpectedEntry k"
  by (cases v) (auto split: list.splits)

lemma checkDeriveAlgorithm_AES_GCM_fails:
  assumes "alg = JStr ''AES-GCM'' \<or> (\<exists>kvs. alg = JObject kvs \<and> map_of kvs ''name'' = Some (JStr ''AES-GCM''))"
  shows "\<exists>e. checkDeriveAlgorithm alg = Inl e
            \<and> (allowOnlyKeys alg [''name'', ''namedCurve'', ''public'', ''hash'', ''salt'', ''info''] = Inr ()
                 \<longrightarrow> e = (if alg = JStr ''AES-GCM'' then AesGcmNotSupported
                          else NotAllowedValue ''algorithm.name'' (JStr ''AES-GCM'')))
            \<and> (allowOnlyKeys alg [''name'', ''namedCurve'', ''public'', ''hash'', ''salt'', ''info''] \<noteq> Inr ()
                 \<longrightarrow> (\<exists>k. e = UnexpectedEntry k))"
proof (cases "allowOnlyKeys alg [''name'', ''namedCurve'', ''public'', ''hash'', ''salt'', ''info'']")
  case (Inl e')
  then obtain k where "e' = UnexpectedEntry k"
    using allowOnlyKeys_Inl by blast
  with Inl assms show ?thesis
    by (auto simp add: checkDeriveAlgorithm_AES_GCM_object simp del: allowOnlyKeys.simps(1))
next
  case (Inr u)
  with assms show ?thesis
    by (auto simp add: checkDeriveAlgorithm_AES_GCM_string checkDeriveAlgorithm_AES_GCM_object
        simp del: allowOnlyKeys.simps)
qed

text \<open>Two runs of \<open>importKey\<close> with a Provider that grants the import.\<close>

lemma importKey_aes_example:
  "importKey ex_provider [JStr ''raw'', JArrayBuffer ex_buffer, JObject [(''name'', JStr ''AES-GCM'')], JBool False, ex_usages] ex_state
   = (Resolved \<lparr>key_cid = 1, key_algorithm = JStr ''AES-GCM'', key_extractable = JBool False,
                key_usages = NewValue (JArray True [JStr ''deriveKey'']), key_type = None\<rparr>,
      \<lparr>next_cid = 2,
        calls = [Create 1,
                 NativeCall (Key 1) ''import''
                   [(''format'', Val (JStr ''raw'')), (''keyData'', Val (JArrayBuffer ex_buffer)),
                    (''algorithm'', Val (JStr ''AES-GCM'')), (''extractable'', Val (JBool False)),
                    (''keyUsages'', Val ex_usages)]]\<rparr>)"
  by (simp add: importKey_def importKey_body_def async_def importKey_checks_def
      importKey_algorithm_checks_def arg_def
      allowOnlyValues_def checkType_def with_prop_def new_CryptoKey_def ex_state_def
      algorithmInternal_def key_import_def Let_def await_def ex_provider_def native_call_def
      frozen_copy_def ex_usages_def)

lemma importKey_ecdh_example:
  "importKey ex_provider [JStr ''spki'', JArrayBuffer ex_buffer, ex_ecdh, JBool True, ex_usages] ex_state
   = (Resolved \<lparr>key_cid = 1, key_algorithm = ex_ecdh, key_extractable = JBool True,
                key_usages = NewValue (JArray True [JStr ''deriveKey'']), key_type = None\<rparr>,
      \<lparr>next_cid = 2,
        calls = [Create 1,
                 NativeCall (Key 1) ''import''
                   [(''format'', Val (JStr ''spki'')), (''keyData'', Val (JArrayBuffer ex_buffer)),
                    (''algorithm'', Val ex_ecdh), (''extractable'', Val (JBool True)),
                    (''keyUsages'', Val ex_usages)]]\<rparr>)"
  by (simp add: importKey_def importKey_body_def async_def importKey_checks_def
      importKey_algorithm_checks_def arg_def
      allowOnlyValues_def checkType_def with_prop_def new_CryptoKey_def ex_state_def
      algorithmInternal_def key_import_def Let_def await_def ex_provider_def native_call_def
      frozen_copy_def ex_usages_def ex_ecdh_def)

lemma importKey_ecdh_reversed_example:
  "importKey ex_provider [JStr ''spki'', JArrayBuffer ex_buffer, ex_ecdh_reversed, JBool True, ex_usages] ex_state
   = (Resolved \<lparr>key_cid = 1, key_algorithm = ex_ecdh_reversed, key_extractable = JBool True,
                key_usages = NewValue (JArray True [JStr ''deriveKey'']), key_type = None\<rparr>,
      \<lparr>next_cid = 2,
        calls = [Create 1,
                 NativeCall (Key 1) ''import''
                   [(''format'', Val (JStr ''spki'')), (''keyData'', Val (JArrayBuffer ex_buffer)),
                    (''algorithm'', Val ex_ecdh_reversed), (''extractable'', Val (JBool True)),
                    (''keyUsages'', Val ex_usages)]]\<rparr>)"
  by (simp add: importKey_def importKey_body_def async_def importKey_checks_def
      importKey_algorithm_checks_def arg_def allowOnlyValues_def checkType_def with_prop_def
      new_CryptoKey_def ex_state_def algorithmInternal_def key_import_def Let_def await_def
      ex_provider_def native_call_def frozen_copy_def ex_usages_def ex_ecdh_reversed_def)

section \<open>SubtleCrypto: theorems\<close>

text \<open>
  Claim C7: in every call of \<open>importKey\<close> whose argument count is not 5 the body throws
  the argument-count error, so the call is rejected with it, whatever the arguments are,
  and nothing is asked of the Provider.
\<close>

theorem importKey_wrong_argument_count:
  assumes "length args \<noteq> 5"
  shows "importKey_body p args s = (Inl (ExpectedArguments 5 (length args)), s)
         \<and> importKey p args s = (Rejected (ExpectedArguments 5 (length args)), s)
         \<and> error_class_of (ExpectedArguments 5 (length args)) = ArgumentCountError"
  using assms by (simp add: importKey_def importKey_body_def async_def)

text \<open>The witness: four arguments, and six arguments of which the first five are
  valid.\<close>

theorem importKey_wrong_argument_count_witness:
  "importKey ex_provider [JStr ''raw'', JArrayBuffer ex_buffer, JStr ''AES-GCM'', JBool False] ex_state
     = (Rejected (ExpectedArguments 5 4), ex_state)
   \<and> importKey ex_provider
        [JStr ''raw'', JArrayBuffer ex_buffer, JStr ''AES-GCM'', JBool False, ex_usages, JNull] ex_state
     = (Rejected (ExpectedArguments 5 6), ex_state)"
  using importKey_wrong_argument_count
      [of "[JStr ''raw'', JArrayBuffer ex_buffer, JStr ''AES-GCM'', JBool False]" ex_provider ex_state]
    importKey_wrong_argument_count
      [of "[JStr ''raw'', JArrayBuffer ex_buffer, JStr ''AES-GCM'', JBool False, ex_usages, JNull]"
        ex_provider ex_state]
  by simp

text \<open>
  Claim C3: for a call of \<open>digest\<close> with fewer than 2 arguments, with an algorithm name
  outside SHA-1, SHA-256, SHA-384, SHA-512, or with data that is not buffer-like, the
  body of \<open>digest\<close> does not throw: it returns a rejected promise, which is the result
  of the call, and nothing is asked of the Provider. The checks run in this order; the
  rejection made by the name check carries the unrecognized-name error with the
  offending name.
\<close>

theorem digest_invalid_arguments_reject:
  assumes "length args < 2 \<or> arg args 0 \<notin> set (map JStr validAlgorithms) \<or> \<not> buffer_like (arg args 1)"
  shows "\<exists>e. e = (if length args < 2 then NotEnoughArguments ''SubtleCrypto.digest''
                   else if arg args 0 \<notin> set (map JStr validAlgorithms) then UnrecognizedName (arg args 0)
                   else NotAcceptedArrayType (arg args 1))
           \<and> digest_body p args s = (Inr (Rejected e), s)
           \<and> digest p args s = (Rejected e, s)"
  using assms by (auto simp add: digest_def digest_body_def async_def truthy_getBuffer)

theorem digest_invalid_arguments_reject_witness:
  "digest ex_provider [JStr ''SHA-256''] ex_state
     = (Rejected (NotEnoughArguments ''SubtleCrypto.digest''), ex_state)
   \<and> digest ex_provider [JStr ''MD5'', JArrayBuffer ex_buffer] ex_state
     = (Rejected (UnrecognizedName (JStr ''MD5'')), ex_state)
   \<and> digest ex_provider [JStr ''SHA-256'', JView ex_float_view] ex_state
     = (Rejected (NotAcceptedArrayType (JView ex_float_view)), ex_state)"
  using digest_invalid_arguments_reject [of "[JStr ''SHA-256'']" ex_provider ex_state]
    digest_invalid_arguments_reject [of "[JStr ''MD5'', JArrayBuffer ex_buffer]" ex_provider ex_state]
    digest_invalid_arguments_reject [of "[JStr ''SHA-256'', JView ex_float_view]" ex_provider ex_state]
  by (simp add: arg_def validAlgorithms_def ex_float_view_def)


text \<open>
  Claim C4: when \<open>importKey\<close> resolves with a key handle, the handle's \<open>algorithm\<close>
  is \<open>X\<close> if the caller's descriptor was \<open>{name: X}\<close> with no other field, and is the
  caller's descriptor itself in every other case: a descriptor with other keys than the
  single \<open>name\<close>, so the ECDH descriptor with its \<open>namedCurve\<close> in either order of the
  keys, and a bare string. Its \<open>usages\<close> is a new array, not the caller's object, frozen
  and with the elements of the caller's array, so that it still shows these elements
  whatever the caller does to their own array afterwards. Its \<open>extractable\<close> is the
  caller's flag.
\<close>

theorem importKey_stored_attributes:
  assumes "importKey p args s = (Resolved k, s')"
  shows "(\<forall>X. arg args 2 = JObject [(''name'', X)] \<longrightarrow> key_algorithm k = X)
       \<and> (\<forall>kvs. arg args 2 = JObject kvs \<and> map fst kvs \<noteq> [''name''] \<longrightarrow> key_algorithm k = arg args 2)
       \<and> (\<forall>kvs. arg args 2 = JObject kvs \<and> map_of kvs ''name'' = Some (JStr ''ECDH'')
              \<longrightarrow> map_of kvs ''namedCurve'' = Some (JStr ''P-256'') \<and> key_algorithm k = arg args 2)
       \<and> (\<forall>a. arg args 2 = JStr a \<longrightarrow> key_algorithm k = JStr a)
       \<and> ((\<exists>a. arg args 2 = JStr a) \<or> (\<exists>kvs. arg args 2 = JObject kvs))
       \<and> (\<exists>f xs. arg args 4 = JArray f xs \<and> key_usages k = NewValue (JArray True xs)
              \<and> (\<forall>m. seen_after m (key_usages k) = JArray True xs))
       \<and> key_extractable k = arg args 3"
proof -
  note r = importKey_Resolved [OF assms]
  have chk: "importKey_algorithm_checks (arg args 2) = Inr ()"
    and us: "has_kind (arg args 4) TArray"
    using r(2) by (simp_all add: importKey_checks_def first_error_Inr_iff checkType_def split: if_splits)
  have collapsed: "\<forall>X. arg args 2 = JObject [(''name'', X)] \<longrightarrow> key_algorithm k = X"
    using r(3) by (auto simp add: algorithmInternal_def)
  have other: "\<forall>kvs. arg args 2 = JObject kvs \<and> map fst kvs \<noteq> [''name''] \<longrightarrow> key_algorithm k = arg args 2"
  proof (intro allI impI)
    fix kvs assume a: "arg args 2 = JObject kvs \<and> map fst kvs \<noteq> [''name'']"
    then have "\<not> (length (map fst kvs) = 1 \<and> hd (map fst kvs) = ''name'')"
      by (cases "map fst kvs") auto
    then show "key_algorithm k = arg args 2"
      using r(3) a by (auto simp add: algorithmInternal_def)
  qed
  have ecdh: "\<forall>kvs. arg args 2 = JObject kvs \<and> map_of kvs ''name'' = Some (JStr ''ECDH'')
              \<longrightarrow> map_of kvs ''namedCurve'' = Some (JStr ''P-256'') \<and> key_algorithm k = arg args 2"
  proof (intro allI impI)
    fix kvs assume a: "arg args 2 = JObject kvs \<and> map_of kvs ''name'' = Some (JStr ''ECDH'')"
    with chk have curve: "map_of kvs ''namedCurve'' = Some (JStr ''P-256'')"
      by (auto simp add: importKey_algorithm_checks_object)
    have "map fst kvs \<noteq> [''name'']"
    proof
      assume n: "map fst kvs = [''name'']"
      from curve have "''namedCurve'' \<in> set (map fst kvs)"
        by (metis map_of_eq_None_iff option.distinct(1) list.set_map)
      with n show False by simp
    qed
    with other a curve
    show "map_of kvs ''namedCurve'' = Some (JStr ''P-256'') \<and> key_algorithm k = arg args 2"
      by blast
  qed
  have bare: "\<forall>a. arg args 2 = JStr a \<longrightarrow> key_algorithm k = JStr a"
  proof (intro allI impI)
    fix a assume a: "arg args 2 = JStr a"
    with chk have "a \<in> {''ECDH'', ''AES-GCM'', ''HKDF''}"
      by (simp add: importKey_algorithm_checks_string)
    then have "length a \<noteq> 1" by auto
    then show "key_algorithm k = JStr a"
      using r(3) a by (simp add: algorithmInternal_string)
  qed
  have shape: "(\<exists>a. arg args 2 = JStr a) \<or> (\<exists>kvs. arg args 2 = JObject kvs)"
    using chk by (rule importKey_algorithm_checks_shape)
  obtain f xs where arr: "arg args 4 = JArray f xs"
    using us by (auto simp add: has_kind_TArray)
  then have u: "key_usages k = NewValue (JArray True xs)"
    using r(4) by (simp add: frozen_copy_def)
  then have "\<forall>m. seen_after m (key_usages k) = JArray True xs"
    by (simp add: seen_after_def)
  with arr u collapsed other ecdh bare shape r(5) show ?thesis by blast
qed

text \<open>The witness: \<open>{name: "AES-GCM"}\<close> is stored as \<open>"AES-GCM"\<close>; the ECDH descriptor is
  stored as it is, with \<open>name\<close> first and with \<open>namedCurve\<close> first.\<close>

theorem importKey_stored_attributes_witness:
  "fst (importKey ex_provider [JStr ''raw'', JArrayBuffer ex_buffer, JObject [(''name'', JStr ''AES-GCM'')], JBool False, ex_usages] ex_state)
     = Resolved \<lparr>key_cid = 1, key_algorithm = JStr ''AES-GCM'', key_extractable = JBool False,
                key_usages = NewValue (JArray True [JStr ''deriveKey'']), key_type = None\<rparr>
   \<and> fst (importKey ex_provider [JStr ''spki'', JArrayBuffer ex_buffer, ex_ecdh, JBool True, ex_usages] ex_state)
     = Resolved \<lparr>key_cid = 1, key_algorithm = ex_ecdh, key_extractable = JBool True,
                key_usages = NewValue (JArray True [JStr ''deriveKey'']), key_type = None\<rparr>
   \<and> fst (importKey ex_provider [JStr ''spki'', JArrayBuffer ex_buffer, ex_ecdh_reversed, JBool True, ex_usages] ex_state)
     = Resolved \<lparr>key_cid = 1, key_algorithm = ex_ecdh_reversed, key_extractable = JBool True,
                key_usages = NewValue (JArray True [JStr ''deriveKey'']), key_type = None\<rparr>"
  using importKey_stored_attributes [OF importKey_aes_example]
    importKey_stored_attributes [OF importKey_ecdh_example]
    importKey_stored_attributes [OF importKey_ecdh_reversed_example]
  by (simp add: importKey_aes_example importKey_ecdh_example importKey_ecdh_reversed_example)

text \<open>
  Claim C10: \<open>importKey\<close> accepts the bare string \<open>"HKDF"\<close>: with a valid format and
  buffer-like key data, a boolean flag and an array of usages, all checks pass, and when
  the Provider grants the import the result is a key handle whose \<open>algorithm\<close> is
  \<open>"HKDF"\<close>. Every call whose algorithm is a structured descriptor named \<open>"HKDF"\<close> is
  rejected and asks nothing of the Provider; when format and key data are valid the
  rejection is the one of the check of \<open>algorithm.name\<close>. A structured descriptor
  passes the checks only if its name is \<open>"ECDH"\<close> or \<open>"AES-GCM"\<close>.
\<close>

theorem importKey_HKDF_bare_string_only:
  "(fmt \<in> set (map JStr [''spki'', ''pkcs8'', ''raw'']) \<and> buffer_like kd \<longrightarrow>
      importKey_checks fmt kd (JStr ''HKDF'') (JBool b) (JArray f xs) = Inr ()
      \<and> (respond p (Key (next_cid s)) ''import''
           [(''format'', Val fmt), (''keyData'', Val (getBuffer kd)), (''algorithm'', Val (JStr ''HKDF'')),
            (''extractable'', Val (JBool b)), (''keyUsages'', Val (JArray f xs))] = Succeeds v
         \<longrightarrow> fst (importKey p [fmt, kd, JStr ''HKDF'', JBool b, JArray f xs] s)
             = Resolved \<lparr>key_cid = next_cid s, key_algorithm = JStr ''HKDF'', key_extractable = JBool b,
                         key_usages = NewValue (JArray True xs), key_type = None\<rparr>)
      \<and> (map_of kvs ''name'' = Some (JStr ''HKDF'') \<longrightarrow>
           importKey p [fmt, kd, JObject kvs, ex, us] s
             = (Rejected (NotAllowedValue ''algorithm.name'' (JStr ''HKDF'')), s)))
   \<and> (arg args 2 = JObject kvs \<and> map_of kvs ''name'' = Some (JStr ''HKDF'') \<longrightarrow>
        (\<exists>e. importKey p args s = (Rejected e, s))
        \<and> importKey_algorithm_checks (JObject kvs) = Inl (NotAllowedValue ''algorithm.name'' (JStr ''HKDF'')))
   \<and> (importKey_algorithm_checks (JObject kvs') = Inr () \<longrightarrow>
        map_of kvs' ''name'' = Some (JStr ''ECDH'') \<or> map_of kvs' ''name'' = Some (JStr ''AES-GCM''))"
  using importKey_HKDF_string_checks [of fmt kd b f xs]
    importKey_HKDF_string_resolves [of fmt kd p s b f xs v]
    importKey_HKDF_object_error [of fmt kd kvs p ex us s]
    importKey_rejects_HKDF_object [of args kvs p s]
    importKey_algorithm_checks_HKDF_object [of kvs] importKey_algorithm_checks_object [of kvs' "()"]
  by blast

theorem importKey_HKDF_bare_string_only_witness:
  "fst (importKey ex_provider
          [JStr ''raw'', JArrayBuffer ex_buffer, JStr ''HKDF'', JBool False, JArray False [JStr ''deriveBits'']]
          ex_state)
     = Resolved \<lparr>key_cid = 1, key_algorithm = JStr ''HKDF'', key_extractable = JBool False,
                 key_usages = NewValue (JArray True [JStr ''deriveBits'']), key_type = None\<rparr>
   \<and> importKey ex_provider
        [JStr ''raw'', JArrayBuffer ex_buffer, JObject [(''name'', JStr ''HKDF'')], JBool False,
         JArray False [JStr ''deriveBits'']]
        ex_state
     = (Rejected (NotAllowedValue ''algorithm.name'' (JStr ''HKDF'')), ex_state)
   \<and> importKey_algorithm_checks (JObject [(''name'', JStr ''AES-GCM'')]) = Inr ()"
  using importKey_HKDF_bare_string_only
      [of "JStr ''raw''" "JArrayBuffer ex_buffer" False False "[JStr ''deriveBits'']" ex_provider ex_state
          "JArrayBuffer \<lparr>addr = 1, ab_byteLength = 32\<rparr>"
          "[(''name'', JStr ''HKDF'')]" "JBool False" "JArray False [JStr ''deriveBits'']"
          "[JStr ''raw'', JArrayBuffer ex_buffer, JObject [(''name'', JStr ''HKDF'')], JBool False,
            JArray False [JStr ''deriveBits'']]"
          "[(''name'', JStr ''AES-GCM'')]"]
  by (simp add: ex_provider_def ex_state_def arg_def importKey_algorithm_checks_def
      checkType_def with_prop_def allowOnlyValues_def)

text \<open>
  Claim C6: for every call of \<open>encrypt\<close> or \<open>decrypt\<close> that passes the checks, the
  Provider is called once, with algorithm parameters \<open>{name, iv, tagLength}\<close> whose
  \<open>tagLength\<close> is 128 if the supplied one is absent (\<open>undefined\<close>) or \<open>NaN\<close>, and is
  the supplied number otherwise. The checks let only an absent or a finite tag length
  through (lemma \<open>cipher_checks_tagLength\<close>), so at the facade the case \<open>NaN\<close> does not
  arise; the substitution itself is made by \<open>NativeCrypto.subtleEncrypt\<close> and
  \<open>subtleDecrypt\<close>, which for every algorithm of their declared type forward 128 for an
  absent tag length and for \<open>NaN\<close>, and every other number unchanged.
\<close>

theorem tagLength_defaults_to_128:
  "(cipher_checks alg key data = Inr () \<and> js_get alg ''tagLength'' = Inr tlen \<longrightarrow>
      (\<exists>name iv c.
         snd (encrypt p [alg, key, data] s) =
           native_call CryptoSingleton ''subtleEncrypt''
             [(''algorithm'',
               Val (JObject [(''name'', name), (''iv'', iv),
                             (''tagLength'', if tlen = JUndefined \<or> tlen = JNum NaN
                                             then JNum (Finite 128) else tlen)])),
              (''key'', Cid c), (''data'', Val (getBuffer data))] s
       \<and> snd (decrypt p [alg, key, data] s) =
           native_call CryptoSingleton ''subtleDecrypt''
             [(''algorithm'',
               Val (JObject [(''name'', name), (''iv'', iv),
                             (''tagLength'', if tlen = JUndefined \<or> tlen = JNum NaN
                                             then JNum (Finite 128) else tlen)])),
              (''key'', Cid c), (''data'', Val (view_buffer data))] s))
   \<and> snd (subtleEncrypt p a (JCryptoKey c') data s) =
       native_call CryptoSingleton ''subtleEncrypt''
         [(''algorithm'',
           Val (JObject [(''name'', alg_name a), (''iv'', getBuffer (alg_iv a)),
                         (''tagLength'', effective_tagLength (alg_tagLength a))])),
          (''key'', Cid c'), (''data'', Val (getBuffer data))] s
   \<and> snd (subtleDecrypt p a (JCryptoKey c') data s) =
       native_call CryptoSingleton ''subtleDecrypt''
         [(''algorithm'',
           Val (JObject [(''name'', alg_name a), (''iv'', getBuffer (alg_iv a)),
                         (''tagLength'', effective_tagLength (alg_tagLength a))])),
          (''key'', Cid c'), (''data'', Val (view_buffer data))] s
   \<and> effective_tagLength None = JNum (Finite 128)
   \<and> effective_tagLength (Some NaN) = JNum (Finite 128)
   \<and> (x \<noteq> NaN \<longrightarrow> effective_tagLength (Some x) = JNum x)"
proof (intro conjI impI)
  assume a: "cipher_checks alg key data = Inr () \<and> js_get alg ''tagLength'' = Inr tlen"
  then obtain c0 where key: "key = JCryptoKey c0"
    using cipher_checks_Inr(2) by blast
  from a cipher_checks_declared [of alg key data tlen] obtain name iv where
    d: "declared_algorithm alg =
          Inr \<lparr>alg_name = name, alg_iv = iv,
               alg_tagLength = (case tlen of JNum n \<Rightarrow> Some n | _ \<Rightarrow> None)\<rparr>"
    by blast
  from a cipher_checks_tagLength [of alg key data tlen]
  have t: "tlen = JUndefined \<or> (\<exists>x. tlen = JNum (Finite x))" by blast
  then have eff: "effective_tagLength (case tlen of JNum n \<Rightarrow> Some n | _ \<Rightarrow> None)
                  = (if tlen = JUndefined \<or> tlen = JNum NaN then JNum (Finite 128) else tlen)"
    by (auto simp add: effective_tagLength_def)
  have "snd (encrypt p [alg, key, data] s) =
           native_call CryptoSingleton ''subtleEncrypt''
             [(''algorithm'',
               Val (JObject [(''name'', name), (''iv'', getBuffer iv),
                             (''tagLength'', if tlen = JUndefined \<or> tlen = JNum NaN
                                             then JNum (Finite 128) else tlen)])),
              (''key'', Cid c0), (''data'', Val (getBuffer data))] s
       \<and> snd (decrypt p [alg, key, data] s) =
           native_call CryptoSingleton ''subtleDecrypt''
             [(''algorithm'',
               Val (JObject [(''name'', name), (''iv'', getBuffer iv),
                             (''tagLength'', if tlen = JUndefined \<or> tlen = JNum NaN
                                             then JNum (Finite 128) else tlen)])),
              (''key'', Cid c0), (''data'', Val (view_buffer data))] s"
    using a d eff unfolding key
    by (simp add: encrypt_def encrypt_body_def decrypt_def decrypt_body_def async_def arg_def
        subtleEncrypt_def subtleDecrypt_def encrypt_params_def decrypt_params_def)
  then show "\<exists>name iv c.
         snd (encrypt p [alg, key, data] s) =
           native_call CryptoSingleton ''subtleEncrypt''
             [(''algorithm'',
               Val (JObject [(''name'', name), (''iv'', iv),
                             (''tagLength'', if tlen = JUndefined \<or> tlen = JNum NaN
                                             then JNum (Finite 128) else tlen)])),
              (''key'', Cid c), (''data'', Val (getBuffer data))] s
       \<and> snd (decrypt p [alg, key, data] s) =
           native_call CryptoSingleton ''subtleDecrypt''
             [(''algorithm'',
               Val (JObject [(''name'', name), (''iv'', iv),
                             (''tagLength'', if tlen = JUndefined \<or> tlen = JNum NaN
                                             then JNum (Finite 128) else tlen)])),
              (''key'', Cid c), (''data'', Val (view_buffer data))] s"
    by blast
next
  show "snd (subtleEncrypt p a (JCryptoKey c') data s) =
       native_call CryptoSingleton ''subtleEncrypt''
         [(''algorithm'',
           Val (JObject [(''name'', alg_name a), (''iv'', getBuffer (alg_iv a)),
                         (''tagLength'', effective_tagLength (alg_tagLength a))])),
          (''key'', Cid c'), (''data'', Val (getBuffer data))] s"
    by (simp add: subtleEncrypt_def encrypt_params_def)
next
  show "snd (subtleDecrypt p a (JCryptoKey c') data s) =
       native_call CryptoSingleton ''subtleDecrypt''
         [(''algorithm'',
           Val (JObject [(''name'', alg_name a), (''iv'', getBuffer (alg_iv a)),
                         (''tagLength'', effective_tagLength (alg_tagLength a))])),
          (''key'', Cid c'), (''data'', Val (view_buffer data))] s"
    by (simp add: subtleDecrypt_def decrypt_params_def)
next
  show "effective_tagLength None = JNum (Finite 128)"
    by (simp add: effective_tagLength_def)
next
  show "effective_tagLength (Some NaN) = JNum (Finite 128)"
    by (simp add: effective_tagLength_def)
next
  assume "x \<noteq> NaN"
  then show "effective_tagLength (Some x) = JNum x"
    by (simp add: effective_tagLength_def)
qed

text \<open>The witness: \<open>encrypt\<close> without a tag length forwards 128 and \<open>decrypt\<close> with the
  tag length 96 forwards 96, by the first part of the theorem; \<open>subtleEncrypt\<close> with the
  tag length \<open>NaN\<close> forwards 128, by its second and fourth part.\<close>

theorem tagLength_defaults_to_128_witness:
  "cipher_checks ex_aes_params (JCryptoKey 0) (JArrayBuffer ex_buffer) = Inr ()
   \<and> js_get ex_aes_params ''tagLength'' = Inr JUndefined
   \<and> (\<exists>name iv c.
        snd (encrypt ex_provider [ex_aes_params, JCryptoKey 0, JArrayBuffer ex_buffer] ex_state) =
          native_call CryptoSingleton ''subtleEncrypt''
            [(''algorithm'', Val (JObject [(''name'', name), (''iv'', iv), (''tagLength'', JNum (Finite 128))])),
             (''key'', Cid c), (''data'', Val (JArrayBuffer ex_buffer))] ex_state)
   \<and> cipher_checks ex_aes_params_96 (JCryptoKey 0) (JArrayBuffer ex_buffer) = Inr ()
   \<and> js_get ex_aes_params_96 ''tagLength'' = Inr (JNum (Finite 96))
   \<and> (\<exists>name iv c.
        snd (decrypt ex_provider [ex_aes_params_96, JCryptoKey 0, JArrayBuffer ex_buffer] ex_state) =
          native_call CryptoSingleton ''subtleDecrypt''
            [(''algorithm'', Val (JObject [(''name'', name), (''iv'', iv), (''tagLength'', JNum (Finite 96))])),
             (''key'', Cid c), (''data'', Val (JArrayBuffer ex_buffer))] ex_state)
   \<and> snd (subtleEncrypt ex_provider
             \<lparr>alg_name = JStr ''AES-GCM'', alg_iv = JArrayBuffer ex_buffer, alg_tagLength = Some NaN\<rparr>
             (JCryptoKey 0) (JArrayBuffer ex_buffer) ex_state) =
       native_call CryptoSingleton ''subtleEncrypt''
         [(''algorithm'', Val (JObject [(''name'', JStr ''AES-GCM''), (''iv'', JArrayBuffer ex_buffer),
                                       (''tagLength'', JNum (Finite 128))])),
          (''key'', Cid 0), (''data'', Val (JArrayBuffer ex_buffer))] ex_state"
proof -
  have c1: "cipher_checks ex_aes_params (JCryptoKey 0) (JArrayBuffer ex_buffer) = Inr ()"
    and g1: "js_get ex_aes_params ''tagLength'' = Inr JUndefined"
    and c2: "cipher_checks ex_aes_params_96 (JCryptoKey 0) (JArrayBuffer ex_buffer) = Inr ()"
    and g2: "js_get ex_aes_params_96 ''tagLength'' = Inr (JNum (Finite 96))"
    by (simp_all add: cipher_checks_def ex_aes_params_def ex_aes_params_96_def with_prop_def
        allowOnlyValues_def checkType_def)
  note t1 = tagLength_defaults_to_128
        [of ex_aes_params "JCryptoKey 0" "JArrayBuffer ex_buffer" JUndefined ex_provider ex_state
            "\<lparr>alg_name = JStr ''AES-GCM'', alg_iv = JArrayBuffer ex_buffer, alg_tagLength = Some NaN\<rparr>"
            0 "Finite 96"]
  note t2 = tagLength_defaults_to_128
        [of ex_aes_params_96 "JCryptoKey 0" "JArrayBuffer ex_buffer" "JNum (Finite 96)" ex_provider
            ex_state
            "\<lparr>alg_name = JStr ''AES-GCM'', alg_iv = JArrayBuffer ex_buffer, alg_tagLength = Some NaN\<rparr>"
            0 "Finite 96"]
  from t1 c1 g1 have e1: "\<exists>name iv c.
        snd (encrypt ex_provider [ex_aes_params, JCryptoKey 0, JArrayBuffer ex_buffer] ex_state) =
          native_call CryptoSingleton ''subtleEncrypt''
            [(''algorithm'', Val (JObject [(''name'', name), (''iv'', iv), (''tagLength'', JNum (Finite 128))])),
             (''key'', Cid c), (''data'', Val (JArrayBuffer ex_buffer))] ex_state"
    by auto
  from t2 c2 g2 have e2: "\<exists>name iv c.
        snd (decrypt ex_provider [ex_aes_params_96, JCryptoKey 0, JArrayBuffer ex_buffer] ex_state) =
          native_call CryptoSingleton ''subtleDecrypt''
            [(''algorithm'', Val (JObject [(''name'', name), (''iv'', iv), (''tagLength'', JNum (Finite 96))])),
             (''key'', Cid c), (''data'', Val (JArrayBuffer ex_buffer))] ex_state"
    by (auto simp add: view_buffer_def)
  from t1 have e3: "snd (subtleEncrypt ex_provider
             \<lparr>alg_name = JStr ''AES-GCM'', alg_iv = JArrayBuffer ex_buffer, alg_tagLength = Some NaN\<rparr>
             (JCryptoKey 0) (JArrayBuffer ex_buffer) ex_state) =
       native_call CryptoSingleton ''subtleEncrypt''
         [(''algorithm'', Val (JObject [(''name'', JStr ''AES-GCM''), (''iv'', JArrayBuffer ex_buffer),
                                       (''tagLength'', JNum (Finite 128))])),
          (''key'', Cid 0), (''data'', Val (JArrayBuffer ex_buffer))] ex_state"
    by simp
  from c1 g1 e1 c2 g2 e2 e3 show ?thesis by blast
qed

text \<open>
  Claim C2: for every call of \<open>deriveBits\<close> that passes the checks, with key container
  \<open>c\<close> created for it: when the Provider rejects the derivation, the result is the
  rejection and the Provider saw the creation of \<open>c\<close>, the derive request and the
  destruction of \<open>c\<close>; when the Provider grants the derivation, the result is the outcome
  of the export and the Provider saw the creation of \<open>c\<close>, the derive request, the export
  request and the destruction of \<open>c\<close>. On both paths \<open>c\<close> is destroyed, and no longer
  live, in the state in which the result is produced.
\<close>

theorem deriveBits_disposes_transient_key:
  assumes "deriveBits_checks alg baseKey len = Inr ()"
  shows "\<exists>b. baseKey = JCryptoKey b
     \<and> (\<forall>reason.
          respond p (Key (next_cid s)) ''derive''
            [(''algorithm'', Val alg), (''baseKey'', Cid b),
             (''derivedKeyAlgorithm'', Val (JObject [(''length'', len), (''name'', JStr ''AES-GCM'')])),
             (''extractable'', Val (JBool True)), (''keyUsages'', Val (JArray False []))] = Fails reason
          \<longrightarrow> deriveBits p [alg, baseKey, len] s =
                (Rejected (ProviderFailure reason),
                 \<lparr>next_cid = Suc (next_cid s),
                   calls = calls s @
                     [Create (next_cid s),
                      NativeCall (Key (next_cid s)) ''derive''
                        [(''algorithm'', Val alg), (''baseKey'', Cid b),
                         (''derivedKeyAlgorithm'', Val (JObject [(''length'', len), (''name'', JStr ''AES-GCM'')])),
                         (''extractable'', Val (JBool True)), (''keyUsages'', Val (JArray False []))],
                      Destroy (next_cid s)]\<rparr>))
     \<and> (\<forall>v.
          respond p (Key (next_cid s)) ''derive''
            [(''algorithm'', Val alg), (''baseKey'', Cid b),
             (''derivedKeyAlgorithm'', Val (JObject [(''length'', len), (''name'', JStr ''AES-GCM'')])),
             (''extractable'', Val (JBool True)), (''keyUsages'', Val (JArray False []))] = Succeeds v
          \<longrightarrow> deriveBits p [alg, baseKey, len] s =
                (settle (respond p CryptoSingleton ''subtleExportKey''
                           [(''format'', Val (JStr ''raw'')), (''key'', Cid (next_cid s))]),
                 \<lparr>next_cid = Suc (next_cid s),
                   calls = calls s @
                     [Create (next_cid s),
                      NativeCall (Key (next_cid s)) ''derive''
                        [(''algorithm'', Val alg), (''baseKey'', Cid b),
                         (''derivedKeyAlgorithm'', Val (JObject [(''length'', len), (''name'', JStr ''AES-GCM'')])),
                         (''extractable'', Val (JBool True)), (''keyUsages'', Val (JArray False []))],
                      NativeCall CryptoSingleton ''subtleExportKey''
                        [(''format'', Val (JStr ''raw'')), (''key'', Cid (next_cid s))],
                      Destroy (next_cid s)]\<rparr>))
     \<and> \<not> key_live (next_cid s) (calls (snd (deriveBits p [alg, baseKey, len] s)))
     \<and> Destroy (next_cid s) \<in> set (calls (snd (deriveBits p [alg, baseKey, len] s)))"
proof -
  from deriveBits_checks_Inr [OF assms] obtain b where b: "baseKey = JCryptoKey b" by blast
  show ?thesis
  proof (cases "respond p (Key (next_cid s)) ''derive''
            [(''algorithm'', Val alg), (''baseKey'', Cid b),
             (''derivedKeyAlgorithm'', Val (JObject [(''length'', len), (''name'', JStr ''AES-GCM'')])),
             (''extractable'', Val (JBool True)), (''keyUsages'', Val (JArray False []))]")
    case (Succeeds v)
    then show ?thesis
      using assms b
      by (simp add: deriveBits_def deriveBits_body_def async_def arg_def new_CryptoKey_def
          key_derive_def Let_def await_def
          native_call_def subtleExportKey_def dispose_def key_live_def)
  next
    case (Fails reason)
    then show ?thesis
      using assms b
      by (simp add: deriveBits_def deriveBits_body_def async_def arg_def new_CryptoKey_def
          key_derive_def Let_def await_def
          native_call_def subtleExportKey_def dispose_def key_live_def)
  qed
qed

text \<open>The witness: an HKDF derivation of 256 bits with a Provider that grants every
  request, and with one that refuses the derivation.\<close>

theorem deriveBits_disposes_transient_key_witness:
  "deriveBits ex_provider [ex_hkdf, JCryptoKey 0, JNum (Finite 256)] ex_state =
     (Resolved (JArrayBuffer \<lparr>addr = 1, ab_byteLength = 32\<rparr>),
      \<lparr>next_cid = 2,
        calls = [Create 1,
                 NativeCall (Key 1) ''derive''
                   [(''algorithm'', Val ex_hkdf), (''baseKey'', Cid 0),
                    (''derivedKeyAlgorithm'',
                     Val (JObject [(''length'', JNum (Finite 256)), (''name'', JStr ''AES-GCM'')])),
                    (''extractable'', Val (JBool True)), (''keyUsages'', Val (JArray False []))],
                 NativeCall CryptoSingleton ''subtleExportKey''
                   [(''format'', Val (JStr ''raw'')), (''key'', Cid 1)],
                 Destroy 1]\<rparr>)
   \<and> deriveBits refusing_provider [ex_hkdf, JCryptoKey 0, JNum (Finite 256)] ex_state =
     (Rejected (ProviderFailure (JStr ''refused'')),
      \<lparr>next_cid = 2,
        calls = [Create 1,
                 NativeCall (Key 1) ''derive''
                   [(''algorithm'', Val ex_hkdf), (''baseKey'', Cid 0),
                    (''derivedKeyAlgorithm'',
                     Val (JObject [(''length'', JNum (Finite 256)), (''name'', JStr ''AES-GCM'')])),
                    (''extractable'', Val (JBool True)), (''keyUsages'', Val (JArray False []))],
                 Destroy 1]\<rparr>)"
proof -
  have c: "deriveBits_checks ex_hkdf (JCryptoKey 0) (JNum (Finite 256)) = Inr ()"
    by (simp add: deriveBits_checks_def checkDeriveAlgorithm_def ex_hkdf_def with_prop_def
        allowOnlyValues_def checkType_def)
  show ?thesis
    using deriveBits_disposes_transient_key [OF c, of ex_provider ex_state]
      deriveBits_disposes_transient_key [OF c, of refusing_provider ex_state]
    by (simp add: ex_provider_def refusing_provider_def ex_state_def settle_def)
qed

text \<open>
  Claim C1 as stated fails at two inputs. \<open>deriveBits("AES-GCM", key)\<close>, with two
  arguments, is rejected with the argument-count error, and
  \<open>deriveBits({name: "AES-GCM", length: 256}, key, 256)\<close> is rejected because of the
  unexpected entry \<open>length\<close>, a plain validation error; neither is an algorithm
  mismatch.
\<close>

theorem derive_AES_GCM_other_errors:
  "deriveBits ex_provider [JStr ''AES-GCM'', JCryptoKey 0] ex_state
     = (Rejected (ExpectedArguments 3 2), ex_state)
   \<and> error_class_of (ExpectedArguments 3 2) = ArgumentCountError
   \<and> deriveBits ex_provider
        [JObject [(''name'', JStr ''AES-GCM''), (''length'', JNum (Finite 256))], JCryptoKey 0, JNum (Finite 256)]
        ex_state
     = (Rejected (UnexpectedEntry ''length''), ex_state)
   \<and> error_class_of (UnexpectedEntry ''length'') = ValidationError"
  by (simp add: deriveBits_def deriveBits_body_def async_def deriveBits_checks_def
      checkDeriveAlgorithm_def arg_def)

text \<open>
  Claim C1, amended: every call of \<open>deriveBits\<close> or \<open>deriveKey\<close> whose algorithm is the
  bare string \<open>"AES-GCM"\<close> or a structured descriptor named \<open>"AES-GCM"\<close> is rejected,
  and nothing is asked of the Provider: the state is unchanged. A call with another
  argument count than the operation's (3, respectively 5) is rejected with the
  argument-count error; otherwise the rejection is the error \<open>e\<close> of
  \<open>checkDeriveAlgorithm\<close>. When the descriptor has no key outside \<open>name\<close>,
  \<open>namedCurve\<close>, \<open>public\<close>, \<open>hash\<close>, \<open>salt\<close>, \<open>info\<close>, that error is an algorithm
  mismatch: the AES-GCM-not-supported error for the bare string, the refusal of
  \<open>algorithm.name\<close> for a descriptor. When the descriptor has a key outside them, that
  error is the unexpected entry, a plain validation error.
\<close>

theorem derive_rejects_AES_GCM:
  assumes "arg args 0 = JStr ''AES-GCM''
           \<or> (\<exists>kvs. arg args 0 = JObject kvs \<and> map_of kvs ''name'' = Some (JStr ''AES-GCM''))"
  shows "\<exists>e. checkDeriveAlgorithm (arg args 0) = Inl e
           \<and> deriveBits p args s =
               (Rejected (if length args = 3 then e else ExpectedArguments 3 (length args)), s)
           \<and> deriveKey p args s =
               (Rejected (if length args = 5 then e else ExpectedArguments 5 (length args)), s)
           \<and> (allowOnlyKeys (arg args 0) [''name'', ''namedCurve'', ''public'', ''hash'', ''salt'', ''info''] = Inr ()
                \<longrightarrow> e = (if arg args 0 = JStr ''AES-GCM'' then AesGcmNotSupported
                          else NotAllowedValue ''algorithm.name'' (JStr ''AES-GCM''))
                    \<and> error_class_of e = AlgorithmMismatchError)
           \<and> (allowOnlyKeys (arg args 0) [''name'', ''namedCurve'', ''public'', ''hash'', ''salt'', ''info''] \<noteq> Inr ()
                \<longrightarrow> (\<exists>k. e = UnexpectedEntry k) \<and> error_class_of e = ValidationError)"
proof -
  from checkDeriveAlgorithm_AES_GCM_fails [OF assms] obtain e0 where
    e0: "checkDeriveAlgorithm (arg args 0) = Inl e0"
    and cls: "allowOnlyKeys (arg args 0) [''name'', ''namedCurve'', ''public'', ''hash'', ''salt'', ''info''] = Inr ()
                 \<longrightarrow> e0 = (if arg args 0 = JStr ''AES-GCM'' then AesGcmNotSupported
                          else NotAllowedValue ''algorithm.name'' (JStr ''AES-GCM''))"
    and bad: "allowOnlyKeys (arg args 0) [''name'', ''namedCurve'', ''public'', ''hash'', ''salt'', ''info''] \<noteq> Inr ()
                 \<longrightarrow> (\<exists>k. e0 = UnexpectedEntry k)"
    by blast
  have b: "deriveBits p args s = (Rejected (if length args = 3 then e0 else ExpectedArguments 3 (length args)), s)"
    using e0 by (simp add: deriveBits_def deriveBits_body_def async_def deriveBits_checks_def)
  have k: "deriveKey p args s = (Rejected (if length args = 5 then e0 else ExpectedArguments 5 (length args)), s)"
    using e0 by (simp add: deriveKey_def deriveKey_body_def async_def deriveKey_checks_def)
  show ?thesis
    using e0 b k cls bad by auto
qed

theorem derive_rejects_AES_GCM_witness:
  "deriveBits ex_provider [JStr ''AES-GCM'', JCryptoKey 0, JNum (Finite 256)] ex_state
     = (Rejected AesGcmNotSupported, ex_state)
   \<and> deriveKey ex_provider
        [JObject [(''name'', JStr ''AES-GCM'')], JCryptoKey 0,
         JObject [(''name'', JStr ''AES-GCM''), (''length'', JNum (Finite 256))], JBool True, ex_usages]
        ex_state
     = (Rejected (NotAllowedValue ''algorithm.name'' (JStr ''AES-GCM'')), ex_state)"
  using derive_rejects_AES_GCM
      [of "[JStr ''AES-GCM'', JCryptoKey 0, JNum (Finite 256)]" ex_provider ex_state]
    derive_rejects_AES_GCM
      [of "[JObject [(''name'', JStr ''AES-GCM'')], JCryptoKey 0,
            JObject [(''name'', JStr ''AES-GCM''), (''length'', JNum (Finite 256))], JBool True, ex_usages]"
          ex_provider ex_state]
  by (auto simp add: arg_def)

end
